theory Spec2Isabelle
  imports Main "HOL-Library.AList"
begin

section \<open>Go library functions used by the program\<close>

subsection \<open>Strings\<close>

text \<open>
  Go strings are byte sequences; they are modelled as \<open>string\<close>.
  \<open>strings.ToLower\<close> and \<open>strings.ToUpper\<close> are modelled on the ASCII letters, where
  they agree with Go; bytes outside \<open>A-Z\<close> / \<open>a-z\<close> are left as they are (Go also maps
  non-ASCII Unicode letters, which currency codes do not contain).
\<close>

definition upper_letters :: string where
  "upper_letters = ''ABCDEFGHIJKLMNOPQRSTUVWXYZ''"

definition lower_letters :: string where
  "lower_letters = ''abcdefghijklmnopqrstuvwxyz''"

definition lower_byte :: "char \<Rightarrow> char" where
  "lower_byte c = (case map_of (zip upper_letters lower_letters) c of Some d \<Rightarrow> d | None \<Rightarrow> c)"

definition upper_byte :: "char \<Rightarrow> char" where
  "upper_byte c = (case map_of (zip lower_letters upper_letters) c of Some d \<Rightarrow> d | None \<Rightarrow> c)"

definition ToLower :: "string \<Rightarrow> string" where
  "ToLower s = map lower_byte s"

definition ToUpper :: "string \<Rightarrow> string" where
  "ToUpper s = map upper_byte s"

text \<open>\<open>strings.Replace(s, ",", ".", -1)\<close>: every comma becomes a dot.\<close>

definition Replace_comma_dot :: "string \<Rightarrow> string" where
  "Replace_comma_dot s = map (\<lambda>c. if c = CHR '','' then CHR ''.'' else c) s"

text \<open>
  \<open>strings.Split(s, sep)\<close> for a one-byte separator: the pieces of \<open>s\<close> between the
  separators, one piece more than there are separators, so the result is never empty.
\<close>

fun Split :: "string \<Rightarrow> char \<Rightarrow> string list" where
  "Split [] sep = [[]]"
| "Split (c # cs) sep =
     (if c = sep then [] # Split cs sep
      else case Split cs sep of
             [] \<Rightarrow> [[c]]
           | piece # pieces \<Rightarrow> (c # piece) # pieces)"

subsection \<open>Decimal formatting and \<open>time.Format\<close>\<close>

text \<open>The decimal digits of a natural number, most significant first (\<open>0\<close> is \<open>"0"\<close>).\<close>

definition digit_char :: "nat \<Rightarrow> char" where
  "digit_char d = ''0123456789'' ! d"

fun decimal :: "nat \<Rightarrow> string" where
  "decimal n = (if n < 10 then [digit_char n] else decimal (n div 10) @ [digit_char (n mod 10)])"

declare decimal.simps [simp del]

text \<open>
  \<open>appendInt(b, x, width)\<close> of package \<open>time\<close>: a minus sign for a negative \<open>x\<close>, then
  the decimal digits of \<open>|x|\<close>, padded with zeros on the left to \<open>width\<close>.
\<close>

definition appendInt :: "string \<Rightarrow> int \<Rightarrow> nat \<Rightarrow> string" where
  "appendInt b x width =
     (let b1 = (if x < 0 then b @ ''-'' else b);
          ds = decimal (nat \<bar>x\<bar>)
      in b1 @ replicate (width - length ds) (CHR ''0'') @ ds)"

text \<open>\<open>%d\<close> of \<open>fmt.Sprintf\<close> on an integer.\<close>

definition Sprintf_d :: "int \<Rightarrow> string" where
  "Sprintf_d x = appendInt [] x 0"

text \<open>
  A \<open>time.Time\<close>, reduced to what the program reads of it: the calendar date (for
  \<open>Format\<close>) and the Unix time (for \<open>Unix()\<close>).
\<close>

record time =
  year :: int
  month :: nat
  day :: nat
  unix :: int

text \<open>
  A layout of \<open>time.Format\<close>, as the chunks Go's \<open>nextStdChunk\<close> splits it into:
  \<open>"02"\<close> is the zero-padded day, \<open>"01"\<close> the zero-padded month, \<open>"2006"\<close> the year,
  anything else is copied.
\<close>

datatype chunk = stdZeroDay | stdZeroMonth | stdLongYear | Lit string

fun Format_chunk :: "time \<Rightarrow> chunk \<Rightarrow> string" where
  "Format_chunk t stdZeroDay = appendInt [] (int (day t)) 2"
| "Format_chunk t stdZeroMonth = appendInt [] (int (month t)) 2"
| "Format_chunk t stdLongYear = appendInt [] (year t) 4"
| "Format_chunk t (Lit s) = s"

definition Format :: "time \<Rightarrow> chunk list \<Rightarrow> string" where
  "Format t layout = concat (map (Format_chunk t) layout)"

section \<open>Constants of the program\<close>

text \<open>\<open>outputDateFormat = "02.01.2006"\<close>\<close>

definition outputDateFormat :: "chunk list" where
  "outputDateFormat = [stdZeroDay, Lit ''.'', stdZeroMonth, Lit ''.'', stdLongYear]"

text \<open>\<open>xmlDateFormat = "02/01/2006"\<close>\<close>

definition xmlDateFormat :: "chunk list" where
  "xmlDateFormat = [stdZeroDay, Lit ''/'', stdZeroMonth, Lit ''/'', stdLongYear]"

definition urlDateTimeFormat :: string where
  "urlDateTimeFormat = ''2006-01-02T15:04:05''"

definition usdCurrency :: string where
  "usdCurrency = ''usd''"

definition eurCurrency :: string where
  "eurCurrency = ''eur''"

definition uahCurrency :: string where
  "uahCurrency = ''uah''"

definition userAgent :: string where
  "userAgent = ''Mozilla/5.0 (X11; Linux x86_64) AppleWebKit/537.36 (KHTML, like Gecko) Chrome/116.0.0.0 Safari/537.36''"

section \<open>Errors, panics and results\<close>

text \<open>
  A Go \<open>error\<close> value. The first five are the errors the program builds itself; the
  \<open>Err...\<close> ones are the errors of the bbolt store this model can decide; \<open>LibError\<close>
  is any error a library call reports (net/http, io, encoding/json, encoding/xml,
  strconv, time, os, csv, a failed commit).
\<close>

datatype error =
    InvalidCurrencyName string
  | ResponseBodyEmpty
  | StatusCodeError string
  | CannotGetCurrencyRate string
  | UnknownCharset string
  | ErrDatabaseNotOpen
  | ErrDatabaseReadOnly
  | ErrBucketNameRequired
  | ErrBucketNotFound
  | ErrKeyRequired
  | ErrKeyTooLarge
  | ErrValueTooLarge
  | LibError string

text \<open>
  What a panic carries: the runtime error of an index out of range (the index and the
  length), or the error handed to \<open>panic(err)\<close>.
\<close>

datatype panic_value = IndexOutOfRange int nat | PanicError error

text \<open>
  The outcome of a call that returns \<open>(value, error)\<close>: the value with a nil error, the
  error, or a panic that unwinds through the caller.
\<close>

datatype 'a result = Ok 'a | Err error | Panic panic_value

section \<open>The collaborators: HTTP, the codecs, float64, the store\<close>

record request =
  Method :: string
  URL :: string
  Header :: "(string \<times> string) list"

text \<open>\<open>req.Header.Set(key, value)\<close>\<close>

definition Header_Set :: "request \<Rightarrow> string \<Rightarrow> string \<Rightarrow> request" where
  "Header_Set req k v = req\<lparr>Header := AList.update k v (Header req)\<rparr>"

text \<open>
  \<open>res.Body\<close>: nil, or a reader that yields the bytes, or a reader that fails.
\<close>

datatype http_body = NilBody | Bytes string | ReadFails error

record response =
  StatusCode :: nat
  Status :: string
  Body :: http_body

text \<open>\<open>io.ReadAll\<close> on a body that is not nil.\<close>

fun ReadAll :: "http_body \<Rightarrow> error + string" where
  "ReadAll (Bytes b) = Inr b"
| "ReadAll (ReadFails e) = Inl e"
| "ReadAll NilBody = Inr []"

text \<open>
  The two record types of the JSON variant. \<open>float64\<close> is the type parameter \<open>'f\<close>: its
  operations are library functions, taken from \<open>lib\<close> below.
\<close>

record 'f currencyInfo =
  code :: string
  div_info :: 'f

record 'f currencyData =
  Name :: string
  DivOn :: 'f
  Date :: string
  Curs :: 'f
  Diff :: 'f

text \<open>The two record types of the XML variant (\<open>XMLName\<close> is not read by the program).\<close>

record Valute =
  ID :: string
  NumCode :: int
  CharCode :: string
  Nominal :: int
  Name_v :: string
  Value :: string
  Date_v :: time

record ValCurs =
  Date_vc :: string
  Name_vc :: string
  Valutes :: "Valute list"

text \<open>What the \<open>CharsetReader\<close> hands back to the XML decoder.\<close>

datatype charset_decoder = Windows1251

text \<open>
  The pure library functions the program calls and this development does not define:
  \<^item> \<open>NewRequest method url\<close> is \<open>http.NewRequest(method, url, nil)\<close>;
  \<^item> \<open>json_Unmarshal_data\<close> is \<open>json.Unmarshal\<close> into an empty \<open>[]currencyData\<close>,
    \<open>json_Unmarshal_item\<close> into a zero \<open>currencyData\<close>, \<open>json_Unmarshal_row\<close> into a nil
    \<open>[]string\<close>; \<open>json_Marshal_item\<close> and \<open>json_Marshal_row\<close> are \<open>json.Marshal\<close>;
  \<^item> \<open>xml_Decode charsetReader bytes\<close> is \<open>Decoder.Decode\<close> into a zero \<open>ValCurs\<close>, with
    the decoder's \<open>CharsetReader\<close> as its first argument;
  \<^item> \<open>ParseFloat s\<close> is \<open>strconv.ParseFloat(s, 64)\<close>, \<open>float64_of_int\<close> the conversion
    \<open>float64(n)\<close>, \<open>fdiv\<close> the division of \<open>float64\<close>, \<open>Sprintf_2f\<close> is
    \<open>fmt.Sprintf("%.2f", x)\<close>;
  \<^item> \<open>time_Parse layout s\<close> is \<open>time.Parse(layout, s)\<close>, and \<open>time_AddDays t d\<close> is
    \<open>t.Add(time.Duration(d) * 24 * time.Hour)\<close>.
\<close>

record 'f lib =
  NewRequest :: "string \<Rightarrow> string \<Rightarrow> error + request"
  json_Unmarshal_data :: "string \<Rightarrow> error + 'f currencyData list"
  json_Unmarshal_item :: "string \<Rightarrow> error + 'f currencyData"
  json_Marshal_item :: "'f currencyData \<Rightarrow> error + string"
  json_Unmarshal_row :: "string \<Rightarrow> error + string list"
  json_Marshal_row :: "string list \<Rightarrow> error + string"
  xml_Decode :: "(string \<Rightarrow> error + charset_decoder) \<Rightarrow> string \<Rightarrow> error + ValCurs"
  ParseFloat :: "string \<Rightarrow> error + 'f"
  float64_of_int :: "int \<Rightarrow> 'f"
  fdiv :: "'f \<Rightarrow> 'f \<Rightarrow> 'f"
  Sprintf_2f :: "'f \<Rightarrow> string"
  time_Parse :: "string \<Rightarrow> string \<Rightarrow> error + time"
  time_AddDays :: "time \<Rightarrow> int \<Rightarrow> time"

text \<open>
  What the world does during one lookup: the answer of \<open>httpClient.Do\<close> to a request,
  whether the commit of the store's transaction fails (an I/O error), and what
  \<open>time.Now()\<close> returns.
\<close>

record env =
  http_Do :: "request \<Rightarrow> error + response"
  Commit_fault :: "error option"
  Now :: time

subsection \<open>The bbolt store\<close>

text \<open>
  A bucket maps keys to values; the database maps bucket names to buckets. \<open>opened\<close> and
  \<open>readOnly\<close> are the two fields of the handle that \<open>Begin\<close> reads. A write transaction
  works on its own copy of the buckets, which \<open>Commit\<close> makes the database's and
  \<open>Rollback\<close> drops.
\<close>

type_synonym bucket = "string \<rightharpoonup> string"

type_synonym Tx = "string \<rightharpoonup> bucket"

record DB =
  opened :: bool
  readOnly :: bool
  buckets :: "string \<rightharpoonup> bucket"

definition MaxKeySize :: nat where
  "MaxKeySize = 32768"

definition MaxValueSize :: nat where
  "MaxValueSize = 2 ^ 31 - 2"

text \<open>\<open>db.Begin(true)\<close>\<close>

definition Begin :: "DB \<Rightarrow> error + Tx" where
  "Begin db =
     (if readOnly db then Inl ErrDatabaseReadOnly
      else if \<not> opened db then Inl ErrDatabaseNotOpen
      else Inr (buckets db))"

text \<open>\<open>tx.CreateBucketIfNotExists(name)\<close> on a write transaction; the bucket handle is its name.\<close>

definition CreateBucketIfNotExists :: "Tx \<Rightarrow> string \<Rightarrow> error + Tx" where
  "CreateBucketIfNotExists tx name =
     (if name = [] then Inl ErrBucketNameRequired
      else case tx name of
             None \<Rightarrow> Inr (tx(name \<mapsto> Map.empty))
           | Some b \<Rightarrow> Inr tx)"

text \<open>\<open>b.Get(key)\<close>: nil (\<open>None\<close>) when the bucket has no such key.\<close>

definition Get :: "Tx \<Rightarrow> string \<Rightarrow> string \<Rightarrow> string option" where
  "Get tx b key = (case tx b of None \<Rightarrow> None | Some m \<Rightarrow> m key)"

text \<open>
  \<open>b.Put(key, value)\<close> on a write transaction: one entry per key, the old value replaced.
  The program holds a handle only for a bucket that exists; for a name without a bucket
  the model reports \<open>ErrBucketNotFound\<close>.
\<close>

definition Put :: "Tx \<Rightarrow> string \<Rightarrow> string \<Rightarrow> string \<Rightarrow> error + Tx" where
  "Put tx b key val =
     (if key = [] then Inl ErrKeyRequired
      else if length key > MaxKeySize then Inl ErrKeyTooLarge
      else if length val > MaxValueSize then Inl ErrValueTooLarge
      else case tx b of
             None \<Rightarrow> Inl ErrBucketNotFound
           | Some m \<Rightarrow> Inr (tx(b \<mapsto> m(key \<mapsto> val))))"

text \<open>\<open>tx.Commit()\<close>: the transaction's buckets become the database's, unless the write fails.\<close>

definition Commit :: "env \<Rightarrow> DB \<Rightarrow> Tx \<Rightarrow> error + DB" where
  "Commit env db tx =
     (case Commit_fault env of
        Some e \<Rightarrow> Inl e
      | None \<Rightarrow> Inr (db\<lparr>buckets := tx\<rparr>))"

text \<open>\<open>db.Close()\<close>\<close>

definition Close :: "DB \<Rightarrow> DB" where
  "Close db = db\<lparr>opened := False\<rparr>"

section \<open>The state of the process\<close>

text \<open>
  The package variables the lookups read and write: \<open>cacheStorage\<close> (both cached
  variants) and \<open>currenciesRate\<close> (XML variant). \<open>requests\<close> is the trace of the HTTP
  requests sent so far, and \<open>provider_calls\<close> counts the calls of the rate provider
  (\<open>getCurrencyItem\<close>, \<open>getCurrencyRate\<close>): both are instrumentation, read by no
  function of the program.
\<close>

record state =
  cacheStorage :: DB
  currenciesRate :: "string \<rightharpoonup> string list"
  requests :: "request list"
  provider_calls :: nat

text \<open>
  The cache key of \<open>getCurrencyItemCache\<close> (both cached variants):
  \<open>fmt.Sprintf("%s-%s", t.Format(outputDateFormat), name)\<close>.
\<close>

definition cacheKey :: "time \<Rightarrow> string \<Rightarrow> string" where
  "cacheKey t name = Format t outputDateFormat @ ''-'' @ name"

section \<open>The JSON variant with a cache (main.go)\<close>

definition currenciesInfo :: "'f lib \<Rightarrow> string \<rightharpoonup> 'f currencyInfo" where
  "currenciesInfo lib =
     [''usd'' \<mapsto> \<lparr>code = ''R01235'', div_info = float64_of_int lib 1\<rparr>,
      ''eur'' \<mapsto> \<lparr>code = ''R01239'', div_info = float64_of_int lib 1\<rparr>,
      ''uah'' \<mapsto> \<lparr>code = ''R01720'', div_info = float64_of_int lib 10\<rparr>]"

text \<open>\<open>fmt.Sprintf(urlTemplate, code, unix)\<close>\<close>

definition urlTemplate :: "string \<Rightarrow> int \<Rightarrow> string" where
  "urlTemplate c u =
     ''https://www.cbr.ru/Queries/AjaxDataSource/112805?DT=&val_id='' @ c @ ''&_='' @ Sprintf_d u"

definition getDate :: "'f lib \<Rightarrow> 'f currencyData \<Rightarrow> string result" where
  "getDate lib cr =
     (case time_Parse lib urlDateTimeFormat (Date cr) of
        Inl e \<Rightarrow> Panic (PanicError e)
      | Inr t \<Rightarrow> Ok (Format t outputDateFormat))"

definition getRow :: "'f lib \<Rightarrow> 'f currencyData \<Rightarrow> string list result" where
  "getRow lib cr =
     (case getDate lib cr of
        Ok d \<Rightarrow>
          Ok [d,
              ToUpper (Name cr),
              Sprintf_2f lib (fdiv lib (Curs cr) (DivOn cr)),
              Sprintf_2f lib (fdiv lib (Diff cr) (DivOn cr))]
      | Err e \<Rightarrow> Err e
      | Panic p \<Rightarrow> Panic p)"

text \<open>
  \<open>getCurrencyItem(name, t)\<close>. The state it returns differs from the one it gets in the
  instrumentation only.
\<close>

definition getCurrencyItem ::
  "'f lib \<Rightarrow> env \<Rightarrow> string \<Rightarrow> time \<Rightarrow> state \<Rightarrow> 'f currencyData result \<times> state" where
  "getCurrencyItem lib env name t st0 =
     (let st = st0\<lparr>provider_calls := Suc (provider_calls st0)\<rparr> in
      case currenciesInfo lib name of
        None \<Rightarrow> (Err (InvalidCurrencyName name), st)
      | Some info \<Rightarrow>
          (case NewRequest lib ''GET'' (urlTemplate (code info) (unix t)) of
             Inl e \<Rightarrow> (Err e, st)
           | Inr req0 \<Rightarrow>
               (let req = Header_Set req0 ''User-Agent'' userAgent;
                    st1 = st\<lparr>requests := requests st @ [req]\<rparr>
                in case http_Do env req of
                     Inl e \<Rightarrow> (Err e, st1)
                   | Inr res \<Rightarrow>
                       if Body res = NilBody then (Err ResponseBodyEmpty, st1)
                       else if StatusCode res \<noteq> 200 then (Err (StatusCodeError (Status res)), st1)
                       else (case ReadAll (Body res) of
                               Inl e \<Rightarrow> (Err e, st1)
                             | Inr body \<Rightarrow>
                                 (case json_Unmarshal_data lib body of
                                    Inl e \<Rightarrow> (Err e, st1)
                                  | Inr data \<Rightarrow>
                                      if data = [] then (Panic (IndexOutOfRange (- 1) 0), st1)
                                      else (Ok ((data ! (length data - 1))
                                                  \<lparr>Name := name, DivOn := div_info info\<rparr>), st1))))))"

text \<open>
  The block at the label \<open>skipCache:\<close> of \<open>getCurrencyItemCache\<close>: fetch, serialise, put,
  commit. \<open>tx\<close> is the open transaction; wherever the block returns without a commit, the
  deferred \<open>tx.Rollback()\<close> drops it and the store stays as it was.
\<close>

definition skipCache_block ::
  "'f lib \<Rightarrow> env \<Rightarrow> string \<Rightarrow> time \<Rightarrow> string \<Rightarrow> Tx \<Rightarrow> state \<Rightarrow> 'f currencyData result \<times> state" where
  "skipCache_block lib env name t key tx st =
     (case getCurrencyItem lib env name t st of
        (Err e, st1) \<Rightarrow> (Err e, st1)
      | (Panic p, st1) \<Rightarrow> (Panic p, st1)
      | (Ok r, st1) \<Rightarrow>
          (case json_Marshal_item lib r of
             Inl e \<Rightarrow> (Err e, st1)
           | Inr val \<Rightarrow>
               (case Put tx ''cache'' key val of
                  Inl e \<Rightarrow> (Err e, st1)
                | Inr tx1 \<Rightarrow>
                    (case Commit env (cacheStorage st1) tx1 of
                       Inl e \<Rightarrow> (Err e, st1)
                     | Inr db \<Rightarrow> (Ok r, st1\<lparr>cacheStorage := db\<rparr>)))))"

definition getCurrencyItemCache ::
  "'f lib \<Rightarrow> env \<Rightarrow> string \<Rightarrow> time \<Rightarrow> bool \<Rightarrow> state \<Rightarrow> 'f currencyData result \<times> state" where
  "getCurrencyItemCache lib env name t skipCache st =
     (let key = cacheKey t name in
      case Begin (cacheStorage st) of
        Inl e \<Rightarrow> (Err e, st)
      | Inr tx0 \<Rightarrow>
          (case CreateBucketIfNotExists tx0 ''cache'' of
             Inl e \<Rightarrow> (Err e, st)
           | Inr tx \<Rightarrow>
               if skipCache then skipCache_block lib env name t key tx st
               else (case Get tx ''cache'' key of
                       None \<Rightarrow> skipCache_block lib env name t key tx st
                     | Some val \<Rightarrow>
                         (case json_Unmarshal_item lib val of
                            Inl e \<Rightarrow> (Err e, st)
                          | Inr r \<Rightarrow> (Ok r, st)))))"

text \<open>
  The process: what \<open>main\<close> gets from outside. \<open>lookup_env i\<close> is the world during the
  \<open>i\<close>-th iteration of the loop over the currencies; \<open>bolt_Open\<close> is the answer of
  \<open>bolt.Open\<close>, the buckets of the cache file; \<open>WriteAll rows\<close> is what
  \<open>csv.Writer.WriteAll\<close> gets onto standard output, and its error.
\<close>

record process =
  MkdirAll_fault :: "error option"
  bolt_Open :: "error + (string \<rightharpoonup> bucket)"
  lookup_env :: "nat \<Rightarrow> env"
  start_time :: time
  WriteAll :: "string list list \<Rightarrow> string list list \<times> error option"

text \<open>
  How a run ends: the exit status (0, 1 after \<open>log.Fatal\<close>, 2 after a panic), the rows
  on standard output, and the state at the exit.
\<close>

record outcome =
  exit_status :: nat
  stdout :: "string list list"
  final :: state

text \<open>The package variables before \<open>main\<close> runs.\<close>

definition init_state :: state where
  "init_state =
     \<lparr>cacheStorage = \<lparr>opened = False, readOnly = False, buckets = Map.empty\<rparr>,
      currenciesRate = Map.empty, requests = [], provider_calls = 0\<rparr>"

record flags =
  currency_flag :: string
  skipCache_flag :: bool
  usd_flag :: bool
  eur_flag :: bool
  uah_flag :: bool

text \<open>
  The loop of \<open>main\<close> over \<open>currenciesList\<close>, from iteration \<open>i\<close> on, with the rows
  gathered so far; \<open>time.Now()\<close> is read in every iteration.
\<close>

fun main_loop ::
  "'f lib \<Rightarrow> process \<Rightarrow> bool \<Rightarrow> nat \<Rightarrow> string list \<Rightarrow> string list list \<Rightarrow> state
     \<Rightarrow> string list list result \<times> state" where
  "main_loop lib ps skip i [] rows st = (Ok rows, st)"
| "main_loop lib ps skip i (c # cs) rows st =
     (case getCurrencyItemCache lib (lookup_env ps i) c (Now (lookup_env ps i)) skip st of
        (Err e, st1) \<Rightarrow> (Err e, st1)
      | (Panic p, st1) \<Rightarrow> (Panic p, st1)
      | (Ok r, st1) \<Rightarrow>
          (case getRow lib r of
             Err e \<Rightarrow> (Err e, st1)
           | Panic p \<Rightarrow> (Panic p, st1)
           | Ok row \<Rightarrow> main_loop lib ps skip (Suc i) cs (rows @ [row]) st1))"

text \<open>
  The deferred \<open>cacheStorage.Close()\<close> of \<open>main\<close> runs when \<open>main\<close> returns and when a
  panic unwinds through it, not when \<open>log.Fatal\<close> exits the process.
\<close>

definition closed :: "state \<Rightarrow> state" where
  "closed st = st\<lparr>cacheStorage := Close (cacheStorage st)\<rparr>"

text \<open>What \<open>main\<close> does with the result of the loop: print, or exit.\<close>

definition finish :: "process \<Rightarrow> string list list result \<times> state \<Rightarrow> outcome" where
  "finish ps x =
     (case x of
        (Err e, st) \<Rightarrow> \<lparr>exit_status = 1, stdout = [], final = st\<rparr>
      | (Panic p, st) \<Rightarrow> \<lparr>exit_status = 2, stdout = [], final = closed st\<rparr>
      | (Ok rows, st) \<Rightarrow>
          (case WriteAll ps rows of
             (written, Some e) \<Rightarrow> \<lparr>exit_status = 1, stdout = written, final = st\<rparr>
           | (written, None) \<Rightarrow> \<lparr>exit_status = 0, stdout = written, final = closed st\<rparr>))"

text \<open>The state once \<open>bolt.Open\<close> has returned the handle.\<close>

definition opened_state :: "(string \<rightharpoonup> bucket) \<Rightarrow> state" where
  "opened_state disk =
     init_state\<lparr>cacheStorage := \<lparr>opened = True, readOnly = False, buckets = disk\<rparr>\<rparr>"

definition currenciesList :: "flags \<Rightarrow> string list" where
  "currenciesList fl =
     (let l0 = Split (currency_flag fl) (CHR '','');
          l1 = (if usd_flag fl then l0 @ [usdCurrency] else l0);
          l2 = (if eur_flag fl then l1 @ [eurCurrency] else l1);
          l3 = (if uah_flag fl then l2 @ [uahCurrency] else l2)
      in if length l3 = 0 then [usdCurrency] else l3)"

definition main :: "'f lib \<Rightarrow> process \<Rightarrow> flags \<Rightarrow> outcome" where
  "main lib ps fl =
     (case MkdirAll_fault ps of
        Some e \<Rightarrow> \<lparr>exit_status = 1, stdout = [], final = init_state\<rparr>
      | None \<Rightarrow>
          (case bolt_Open ps of
             Inl e \<Rightarrow> \<lparr>exit_status = 1, stdout = [], final = init_state\<rparr>
           | Inr disk \<Rightarrow>
               finish ps (main_loop lib ps (skipCache_flag fl) 0 (currenciesList fl) [] (opened_state disk))))"

section \<open>The XML variant with a cache\<close>

text \<open>\<open>fmt.Sprintf(urlTemplate, date)\<close> of the XML variant.\<close>

definition urlTemplate_xml :: "string \<Rightarrow> string" where
  "urlTemplate_xml d = ''https://www.cbr.ru/scripts/XML_daily.asp?date_req='' @ d"

definition Valute_getRow :: "'f lib \<Rightarrow> Valute \<Rightarrow> error + string list" where
  "Valute_getRow lib v =
     (let valStr = Replace_comma_dot (Value v) in
      case ParseFloat lib valStr of
        Inl e \<Rightarrow> Inl e
      | Inr val \<Rightarrow>
          (let divOn = float64_of_int lib (Nominal v) in
           Inr [Format (Date_v v) outputDateFormat,
                ToUpper (CharCode v),
                Sprintf_2f lib (fdiv lib val divOn)]))"

text \<open>The function given to the decoder as its \<open>CharsetReader\<close>.\<close>

definition CharsetReader :: "string \<Rightarrow> error + charset_decoder" where
  "CharsetReader charset =
     (if charset = ''windows-1251'' then Inr Windows1251 else Inl (UnknownCharset charset))"

text \<open>
  In \<open>getCurrencyRates\<close> the decoder reads the body itself: a failing read is the
  decoder's error, which the model takes from \<open>ReadAll\<close> before it decodes the bytes.
\<close>

text \<open>
  The loop of \<open>getCurrencyRates\<close> over \<open>v.Valutes\<close>: it writes into the package variable
  \<open>currenciesRate\<close> row by row, and what it wrote stays when a later row fails.
\<close>

fun Valutes_loop ::
  "'f lib \<Rightarrow> time \<Rightarrow> Valute list \<Rightarrow> (string \<rightharpoonup> string list)
     \<Rightarrow> error option \<times> (string \<rightharpoonup> string list)" where
  "Valutes_loop lib t [] m = (None, m)"
| "Valutes_loop lib t (val # vals) m =
     (case Valute_getRow lib (val\<lparr>Date_v := t\<rparr>) of
        Inl e \<Rightarrow> (Some e, m)
      | Inr row \<Rightarrow> Valutes_loop lib t vals (m(ToLower (CharCode val) \<mapsto> row)))"

definition getCurrencyRates ::
  "'f lib \<Rightarrow> env \<Rightarrow> time \<Rightarrow> state \<Rightarrow> (string \<rightharpoonup> string list) result \<times> state" where
  "getCurrencyRates lib env t st =
     (if currenciesRate st \<noteq> Map.empty then (Ok (currenciesRate st), st)
      else case NewRequest lib ''GET'' (urlTemplate_xml (Format t xmlDateFormat)) of
             Inl e \<Rightarrow> (Err e, st)
           | Inr req0 \<Rightarrow>
               (let req = Header_Set req0 ''User-Agent'' userAgent;
                    st1 = st\<lparr>requests := requests st @ [req]\<rparr>
                in case http_Do env req of
                     Inl e \<Rightarrow> (Err e, st1)
                   | Inr res \<Rightarrow>
                       if Body res = NilBody then (Err ResponseBodyEmpty, st1)
                       else if StatusCode res \<noteq> 200 then (Err (StatusCodeError (Status res)), st1)
                       else (case ReadAll (Body res) of
                               Inl e \<Rightarrow> (Err e, st1)
                             | Inr body \<Rightarrow>
                                 (case xml_Decode lib CharsetReader body of
                                    Inl e \<Rightarrow> (Err e, st1)
                                  | Inr v \<Rightarrow>
                                      (case Valutes_loop lib t (Valutes v) (currenciesRate st1) of
                                         (Some e, m) \<Rightarrow> (Err e, st1\<lparr>currenciesRate := m\<rparr>)
                                       | (None, m) \<Rightarrow> (Ok m, st1\<lparr>currenciesRate := m\<rparr>))))))"

definition getCurrencyRate ::
  "'f lib \<Rightarrow> env \<Rightarrow> string \<Rightarrow> time \<Rightarrow> state \<Rightarrow> string list result \<times> state" where
  "getCurrencyRate lib env name t st0 =
     (let st = st0\<lparr>provider_calls := Suc (provider_calls st0)\<rparr> in
      case getCurrencyRates lib env t st of
        (Err e, st1) \<Rightarrow> (Err e, st1)
      | (Panic p, st1) \<Rightarrow> (Panic p, st1)
      | (Ok vals, st1) \<Rightarrow>
          (case vals (ToLower name) of
             Some val \<Rightarrow> (Ok val, st1)
           | None \<Rightarrow> (Err (CannotGetCurrencyRate name), st1)))"

text \<open>The block at the label \<open>skipCache:\<close> of the XML variant's \<open>getCurrencyItemCache\<close>.\<close>

definition skipCache_block_xml ::
  "'f lib \<Rightarrow> env \<Rightarrow> string \<Rightarrow> time \<Rightarrow> string \<Rightarrow> Tx \<Rightarrow> state \<Rightarrow> string list result \<times> state" where
  "skipCache_block_xml lib env name t key tx st =
     (case getCurrencyRate lib env name t st of
        (Err e, st1) \<Rightarrow> (Err e, st1)
      | (Panic p, st1) \<Rightarrow> (Panic p, st1)
      | (Ok r, st1) \<Rightarrow>
          (case json_Marshal_row lib r of
             Inl e \<Rightarrow> (Err e, st1)
           | Inr val \<Rightarrow>
               (case Put tx ''cache'' key val of
                  Inl e \<Rightarrow> (Err e, st1)
                | Inr tx1 \<Rightarrow>
                    (case Commit env (cacheStorage st1) tx1 of
                       Inl e \<Rightarrow> (Err e, st1)
                     | Inr db \<Rightarrow> (Ok r, st1\<lparr>cacheStorage := db\<rparr>)))))"

definition getCurrencyItemCache_xml ::
  "'f lib \<Rightarrow> env \<Rightarrow> string \<Rightarrow> time \<Rightarrow> bool \<Rightarrow> state \<Rightarrow> string list result \<times> state" where
  "getCurrencyItemCache_xml lib env name t skipCache st =
     (let key = cacheKey t name in
      case Begin (cacheStorage st) of
        Inl e \<Rightarrow> (Err e, st)
      | Inr tx0 \<Rightarrow>
          (case CreateBucketIfNotExists tx0 ''cache'' of
             Inl e \<Rightarrow> (Err e, st)
           | Inr tx \<Rightarrow>
               if skipCache then skipCache_block_xml lib env name t key tx st
               else (case Get tx ''cache'' key of
                       None \<Rightarrow> skipCache_block_xml lib env name t key tx st
                     | Some val \<Rightarrow>
                         (case json_Unmarshal_row lib val of
                            Inl e \<Rightarrow> (Err e, st)
                          | Inr r \<Rightarrow> (Ok r, st)))))"

record flags_xml =
  currency_flag_x :: string
  skipCache_flag_x :: bool
  daysBefore_flag :: int

text \<open>The loop of the XML variant's \<open>main\<close>: the date is fixed before the loop.\<close>

fun main_loop_xml ::
  "'f lib \<Rightarrow> process \<Rightarrow> bool \<Rightarrow> time \<Rightarrow> nat \<Rightarrow> string list \<Rightarrow> string list list \<Rightarrow> state
     \<Rightarrow> string list list result \<times> state" where
  "main_loop_xml lib ps skip date i [] rows st = (Ok rows, st)"
| "main_loop_xml lib ps skip date i (c # cs) rows st =
     (case getCurrencyItemCache_xml lib (lookup_env ps i) c date skip st of
        (Err e, st1) \<Rightarrow> (Err e, st1)
      | (Panic p, st1) \<Rightarrow> (Panic p, st1)
      | (Ok row, st1) \<Rightarrow> main_loop_xml lib ps skip date (Suc i) cs (rows @ [row]) st1)"

definition main_xml :: "'f lib \<Rightarrow> process \<Rightarrow> flags_xml \<Rightarrow> outcome" where
  "main_xml lib ps fl =
     (case MkdirAll_fault ps of
        Some e \<Rightarrow> \<lparr>exit_status = 1, stdout = [], final = init_state\<rparr>
      | None \<Rightarrow>
          (case bolt_Open ps of
             Inl e \<Rightarrow> \<lparr>exit_status = 1, stdout = [], final = init_state\<rparr>
           | Inr disk \<Rightarrow>
               (let cl = Split (currency_flag_x fl) (CHR '','') in
                if length cl = 0
                then \<lparr>exit_status = 1, stdout = [], final = opened_state disk\<rparr>
                else (let date = time_AddDays lib (start_time ps) (- daysBefore_flag fl) in
                      finish ps (main_loop_xml lib ps (skipCache_flag_x fl) date 0 cl []
                                   (opened_state disk))))))"

section \<open>The JSON variant without a cache\<close>

text \<open>\<open>httpClient.Get(url)\<close>: a GET request with no header of the program's.\<close>

definition http_Get :: "'f lib \<Rightarrow> env \<Rightarrow> string \<Rightarrow> state \<Rightarrow> (error + response) \<times> state" where
  "http_Get lib env u st =
     (case NewRequest lib ''GET'' u of
        Inl e \<Rightarrow> (Inl e, st)
      | Inr req \<Rightarrow> (http_Do env req, st\<lparr>requests := requests st @ [req]\<rparr>))"

text \<open>\<open>getCurrencyItem(name)\<close> of the variant without a cache.\<close>

definition getCurrencyItem_nocache ::
  "'f lib \<Rightarrow> env \<Rightarrow> string \<Rightarrow> state \<Rightarrow> 'f currencyData result \<times> state" where
  "getCurrencyItem_nocache lib env name st0 =
     (let st = st0\<lparr>provider_calls := Suc (provider_calls st0)\<rparr> in
      case currenciesInfo lib name of
        None \<Rightarrow> (Err (InvalidCurrencyName name), st)
      | Some info \<Rightarrow>
          (case http_Get lib env (urlTemplate (code info) (unix (Now env))) st of
             (Inl e, st1) \<Rightarrow> (Err e, st1)
           | (Inr res, st1) \<Rightarrow>
               if Body res = NilBody then (Err ResponseBodyEmpty, st1)
               else if StatusCode res \<noteq> 200 then (Err (StatusCodeError (Status res)), st1)
               else (case ReadAll (Body res) of
                       Inl e \<Rightarrow> (Err e, st1)
                     | Inr body \<Rightarrow>
                         (case json_Unmarshal_data lib body of
                            Inl e \<Rightarrow> (Err e, st1)
                          | Inr data \<Rightarrow>
                              if data = [] then (Panic (IndexOutOfRange (- 1) 0), st1)
                              else (Ok ((data ! (length data - 1))
                                          \<lparr>Name := name, DivOn := div_info info\<rparr>), st1)))))"

section \<open>Notions used in the statements\<close>

text \<open>The value of a decimal digit, and the number a string of decimal digits denotes.\<close>

definition digit_val :: "char \<Rightarrow> nat" where
  "digit_val c = of_char c - 48"

definition decimal_val :: "string \<Rightarrow> nat" where
  "decimal_val ds = foldl (\<lambda>a c. 10 * a + digit_val c) 0 ds"

text \<open>\<open>padded w n\<close>: the decimal digits of \<open>n\<close>, with zeros on the left up to the width \<open>w\<close>.\<close>

definition padded :: "nat \<Rightarrow> nat \<Rightarrow> string" where
  "padded w n = replicate (w - length (decimal n)) (CHR ''0'') @ decimal n"

text \<open>
  Every \<open>time.Time\<close> has a day from 1 to 31 and a month from 1 to 12. Two times are on
  the same date when day, month and year agree (the time of day is not compared).
\<close>

definition valid_date :: "time \<Rightarrow> bool" where
  "valid_date t \<longleftrightarrow> 1 \<le> day t \<and> day t \<le> 31 \<and> 1 \<le> month t \<and> month t \<le> 12"

definition same_date :: "time \<Rightarrow> time \<Rightarrow> bool" where
  "same_date t t' \<longleftrightarrow> day t = day t' \<and> month t = month t' \<and> year t = year t'"

text \<open>
  The store is ready when its handle is open and writable, as \<open>bolt.Open\<close> leaves it in
  \<open>main\<close>. \<open>cached st key\<close> is the committed entry of the bucket \<open>"cache"\<close> under \<open>key\<close>.
\<close>

definition store_ready :: "state \<Rightarrow> bool" where
  "store_ready st \<longleftrightarrow> opened (cacheStorage st) \<and> \<not> readOnly (cacheStorage st)"

definition cached :: "state \<Rightarrow> string \<Rightarrow> string option" where
  "cached st key = Get (buckets (cacheStorage st)) ''cache'' key"

text \<open>
  Two states show the same work when the requests sent, the provider calls made, the
  rates in memory and the committed buckets agree.
\<close>

definition same_work :: "state \<Rightarrow> state \<Rightarrow> bool" where
  "same_work st st' \<longleftrightarrow>
     requests st' = requests st \<and> provider_calls st' = provider_calls st \<and>
     currenciesRate st' = currenciesRate st \<and>
     buckets (cacheStorage st') = buckets (cacheStorage st)"


text \<open>The bucket \<open>"cache"\<close> as committed, empty when it does not exist yet.\<close>

definition cache_bucket :: "state \<Rightarrow> bucket" where
  "cache_bucket st = (case buckets (cacheStorage st) ''cache'' of None \<Rightarrow> Map.empty | Some b \<Rightarrow> b)"

text \<open>
  In a run of the XML variant, either no request has been sent and \<open>currenciesRate\<close> is
  empty, or at most one has been sent and \<open>currenciesRate\<close> holds rows.
\<close>

definition fetched_once :: "state \<Rightarrow> bool" where
  "fetched_once st \<longleftrightarrow>
     (requests st = [] \<and> currenciesRate st = Map.empty) \<or>
     (length (requests st) \<le> 1 \<and> currenciesRate st \<noteq> Map.empty)"

section \<open>Stand-ins for the collaborators, to run the model on concrete inputs\<close>

text \<open>
  \<open>float64\<close> as fixed point: a natural number of hundredths. Parsing, division and
  \<open>%.2f\<close> are exact on the amounts used below (non-negative, at most two decimals,
  quotients with at most two decimals), where they agree with \<open>float64\<close>.
\<close>

definition parse_digits :: "string \<Rightarrow> nat option" where
  "parse_digits s =
     (if s \<noteq> [] \<and> list_all (\<lambda>c. c \<in> set ''0123456789'') s then Some (decimal_val s) else None)"

definition ParseFloat0 :: "string \<Rightarrow> error + nat" where
  "ParseFloat0 s =
     (case Split s (CHR ''.'') of
        [ip] \<Rightarrow>
          (case parse_digits ip of
             Some n \<Rightarrow> Inr (100 * n)
           | None \<Rightarrow> Inl (LibError ''invalid syntax''))
      | [ip, fp] \<Rightarrow>
          (case (parse_digits ip, parse_digits (take 2 (fp @ ''00''))) of
             (Some n, Some f) \<Rightarrow> Inr (100 * n + f)
           | _ \<Rightarrow> Inl (LibError ''invalid syntax''))
      | _ \<Rightarrow> Inl (LibError ''invalid syntax''))"

definition float64_of_int0 :: "int \<Rightarrow> nat" where
  "float64_of_int0 n = 100 * nat n"

definition fdiv0 :: "nat \<Rightarrow> nat \<Rightarrow> nat" where
  "fdiv0 a b = (100 * a) div b"

definition Sprintf_2f0 :: "nat \<Rightarrow> string" where
  "Sprintf_2f0 x = decimal (x div 100) @ ''.'' @ padded 2 (x mod 100)"

text \<open>
  A codec in place of JSON: the fields of a record, or of a row, joined by \<open>|\<close>; the
  items of the provider's array joined by \<open>;\<close>, the empty array written \<open>[]\<close>.
\<close>

fun join_with :: "char \<Rightarrow> string list \<Rightarrow> string" where
  "join_with sep [] = []"
| "join_with sep [x] = x"
| "join_with sep (x # y # ys) = x @ sep # join_with sep (y # ys)"

fun collect :: "(error + 'a) list \<Rightarrow> error + 'a list" where
  "collect [] = Inr []"
| "collect (Inl e # xs) = Inl e"
| "collect (Inr x # xs) = (case collect xs of Inl e \<Rightarrow> Inl e | Inr ys \<Rightarrow> Inr (x # ys))"

definition Marshal_item0 :: "nat currencyData \<Rightarrow> error + string" where
  "Marshal_item0 r =
     Inr (join_with (CHR ''|'')
            [Name r, decimal (DivOn r), Date r, decimal (Curs r), decimal (Diff r)])"

definition Unmarshal_item0 :: "string \<Rightarrow> error + nat currencyData" where
  "Unmarshal_item0 s =
     (case Split s (CHR ''|'') of
        [n, d, dt, c, df] \<Rightarrow>
          (case (parse_digits d, parse_digits c, parse_digits df) of
             (Some d', Some c', Some df') \<Rightarrow>
               Inr \<lparr>Name = n, DivOn = d', Date = dt, Curs = c', Diff = df'\<rparr>
           | _ \<Rightarrow> Inl (LibError ''cannot unmarshal''))
      | _ \<Rightarrow> Inl (LibError ''cannot unmarshal''))"

definition Unmarshal_data0 :: "string \<Rightarrow> error + nat currencyData list" where
  "Unmarshal_data0 s =
     (if s = ''[]'' then Inr [] else collect (map Unmarshal_item0 (Split s (CHR '';''))))"

definition Marshal_row0 :: "string list \<Rightarrow> error + string" where
  "Marshal_row0 r = Inr (join_with (CHR ''|'') r)"

definition Unmarshal_row0 :: "string \<Rightarrow> error + string list" where
  "Unmarshal_row0 s =
     (if s = [] then Inl (LibError ''unexpected end of JSON input'') else Inr (Split s (CHR ''|'')))"

text \<open>
  A bulletin in place of the XML document: one currency per piece between \<open>;\<close>, as
  \<open>CharCode|Nominal|Value\<close>; the empty document has no currency. The document declares
  the charset \<open>windows-1251\<close>.
\<close>

definition zero_time :: time where
  "zero_time = \<lparr>year = 1, month = 1, day = 1, unix = - 62135596800\<rparr>"

definition Valute0 :: "string \<Rightarrow> error + Valute" where
  "Valute0 s =
     (case Split s (CHR ''|'') of
        [cc, nom, v] \<Rightarrow>
          (case parse_digits nom of
             Some n \<Rightarrow>
               Inr \<lparr>ID = [], NumCode = 0, CharCode = cc, Nominal = int n, Name_v = [],
                    Value = v, Date_v = zero_time\<rparr>
           | None \<Rightarrow> Inl (LibError ''invalid syntax''))
      | _ \<Rightarrow> Inl (LibError ''unexpected element''))"

definition xml_Decode0 :: "(string \<Rightarrow> error + charset_decoder) \<Rightarrow> string \<Rightarrow> error + ValCurs" where
  "xml_Decode0 charsetReader s =
     (case charsetReader ''windows-1251'' of
        Inl e \<Rightarrow> Inl e
      | Inr d \<Rightarrow>
          (case (if s = [] then Inr [] else collect (map Valute0 (Split s (CHR '';'')))) of
             Inl e \<Rightarrow> Inl e
           | Inr vs \<Rightarrow> Inr \<lparr>Date_vc = [], Name_vc = [], Valutes = vs\<rparr>))"

text \<open>\<open>time.Parse\<close> for the layout \<open>2006-01-02T15:04:05\<close>; the Unix time is not computed.\<close>

definition time_Parse0 :: "string \<Rightarrow> string \<Rightarrow> error + time" where
  "time_Parse0 layout s =
     (if layout = urlDateTimeFormat \<and> length s = 19 then
        (case (parse_digits (take 4 s), parse_digits (take 2 (drop 5 s)),
               parse_digits (take 2 (drop 8 s))) of
           (Some y, Some m, Some d) \<Rightarrow> Inr \<lparr>year = int y, month = m, day = d, unix = 0\<rparr>
         | _ \<Rightarrow> Inl (LibError ''cannot parse''))
      else Inl (LibError ''cannot parse''))"

text \<open>Adding days, right as long as the result stays within the month.\<close>

definition time_AddDays0 :: "time \<Rightarrow> int \<Rightarrow> time" where
  "time_AddDays0 t d = t\<lparr>day := nat (int (day t) + d), unix := unix t + 86400 * d\<rparr>"

definition NewRequest0 :: "string \<Rightarrow> string \<Rightarrow> error + request" where
  "NewRequest0 m u = Inr \<lparr>Method = m, URL = u, Header = []\<rparr>"

definition lib0 :: "nat lib" where
  "lib0 =
     \<lparr>NewRequest = NewRequest0,
      json_Unmarshal_data = Unmarshal_data0,
      json_Unmarshal_item = Unmarshal_item0,
      json_Marshal_item = Marshal_item0,
      json_Unmarshal_row = Unmarshal_row0,
      json_Marshal_row = Marshal_row0,
      xml_Decode = xml_Decode0,
      ParseFloat = ParseFloat0,
      float64_of_int = float64_of_int0,
      fdiv = fdiv0,
      Sprintf_2f = Sprintf_2f0,
      time_Parse = time_Parse0,
      time_AddDays = time_AddDays0\<rparr>"

text \<open>Two times on the 10th of January 2024: midnight and noon (UTC).\<close>

definition t_10_01_2024 :: time where
  "t_10_01_2024 = \<lparr>year = 2024, month = 1, day = 10, unix = 1704844800\<rparr>"

definition t_10_01_2024_noon :: time where
  "t_10_01_2024_noon = \<lparr>year = 2024, month = 1, day = 10, unix = 1704888000\<rparr>"

text \<open>
  A world where the provider answers every request with status 200 and the given body,
  and one where every request fails; commits succeed in both.
\<close>

definition env_ok :: "string \<Rightarrow> env" where
  "env_ok body =
     \<lparr>http_Do = (\<lambda>req. Inr \<lparr>StatusCode = 200, Status = ''200 OK'', Body = Bytes body\<rparr>),
      Commit_fault = None,
      Now = t_10_01_2024\<rparr>"

definition env_down :: env where
  "env_down =
     \<lparr>http_Do = (\<lambda>req. Inl (LibError ''context deadline exceeded'')),
      Commit_fault = None,
      Now = t_10_01_2024\<rparr>"

text \<open>A process whose cache file holds the given buckets, in a world that never changes.\<close>

definition process0 :: "(string \<rightharpoonup> bucket) \<Rightarrow> env \<Rightarrow> process" where
  "process0 disk env =
     \<lparr>MkdirAll_fault = None,
      bolt_Open = Inr disk,
      lookup_env = (\<lambda>i. env),
      start_time = t_10_01_2024,
      WriteAll = (\<lambda>rows. (rows, None))\<rparr>"

subsection \<open>The inputs of the examples\<close>

text \<open>An open, writable store with the given buckets; the other components as given.\<close>

definition state_of ::
  "(string \<rightharpoonup> bucket) \<Rightarrow> (string \<rightharpoonup> string list) \<Rightarrow> request list \<Rightarrow> nat \<Rightarrow> state" where
  "state_of disk rates reqs n =
     \<lparr>cacheStorage = \<lparr>opened = True, readOnly = False, buckets = disk\<rparr>,
      currenciesRate = rates, requests = reqs, provider_calls = n\<rparr>"

text \<open>The request of the JSON variant for \<open>usd\<close> at midnight, and the XML variant's for the day.\<close>

definition request_usd :: request where
  "request_usd =
     \<lparr>Method = ''GET'',
      URL = ''https://www.cbr.ru/Queries/AjaxDataSource/112805?DT=&val_id=R01235&_=1704844800'',
      Header = [(''User-Agent'', userAgent)]\<rparr>"

definition request_bulletin :: request where
  "request_bulletin =
     \<lparr>Method = ''GET'',
      URL = ''https://www.cbr.ru/scripts/XML_daily.asp?date_req=10/01/2024'',
      Header = [(''User-Agent'', userAgent)]\<rparr>"

text \<open>
  Answers of the JSON provider: two observations, the last one 91.00 with a change of
  0.50; later a single one, 92.50. The records the lookups make of them, for \<open>usd\<close> with
  the divisor 1, and the cache files that hold them.
\<close>

definition body_json_1 :: string where
  "body_json_1 = ''|0|2024-01-09T00:00:00|9050|10;|0|2024-01-10T00:00:00|9100|50''"

definition body_json_2 :: string where
  "body_json_2 = ''|0|2024-01-10T00:00:00|9250|150''"

definition item_usd_1 :: "nat currencyData" where
  "item_usd_1 =
     \<lparr>Name = ''usd'', DivOn = 100, Date = ''2024-01-10T00:00:00'', Curs = 9100, Diff = 50\<rparr>"

definition item_usd_2 :: "nat currencyData" where
  "item_usd_2 =
     \<lparr>Name = ''usd'', DivOn = 100, Date = ''2024-01-10T00:00:00'', Curs = 9250, Diff = 150\<rparr>"

definition disk_json_1 :: "string \<rightharpoonup> bucket" where
  "disk_json_1 = [''cache'' \<mapsto> [''10.01.2024-usd'' \<mapsto> ''usd|100|2024-01-10T00:00:00|9100|50'']]"

definition disk_json_2 :: "string \<rightharpoonup> bucket" where
  "disk_json_2 = [''cache'' \<mapsto> [''10.01.2024-usd'' \<mapsto> ''usd|100|2024-01-10T00:00:00|9250|150'']]"

text \<open>
  Bulletins of the XML provider: the hryvnia at 912,50 for 10 and the dollar at 91,00;
  later the dollar at 92,50. The rows made of them and the cache files that hold the
  dollar's row.
\<close>

definition body_xml_1 :: string where
  "body_xml_1 = ''UAH|10|912,50;USD|1|91,00''"

definition body_xml_2 :: string where
  "body_xml_2 = ''UAH|10|912,50;USD|1|92,50''"

definition rates_1 :: "string \<rightharpoonup> string list" where
  "rates_1 =
     [''uah'' \<mapsto> [''10.01.2024'', ''UAH'', ''91.25''],
      ''usd'' \<mapsto> [''10.01.2024'', ''USD'', ''91.00'']]"

definition rates_2 :: "string \<rightharpoonup> string list" where
  "rates_2 =
     [''uah'' \<mapsto> [''10.01.2024'', ''UAH'', ''91.25''],
      ''usd'' \<mapsto> [''10.01.2024'', ''USD'', ''92.50'']]"

definition disk_xml_1 :: "string \<rightharpoonup> bucket" where
  "disk_xml_1 = [''cache'' \<mapsto> [''10.01.2024-usd'' \<mapsto> ''10.01.2024|USD|91.00'']]"

definition disk_xml_2 :: "string \<rightharpoonup> bucket" where
  "disk_xml_2 = [''cache'' \<mapsto> [''10.01.2024-usd'' \<mapsto> ''10.01.2024|USD|92.50'']]"

text \<open>
  The hryvnia in the JSON variant, quoted for 10: 24.50 with a change of 0.50. Its request,
  the record the lookup makes (the divisor is 10), and the cache file that holds it.
\<close>

definition request_uah :: request where
  "request_uah =
     \<lparr>Method = ''GET'',
      URL = ''https://www.cbr.ru/Queries/AjaxDataSource/112805?DT=&val_id=R01720&_=1704844800'',
      Header = [(''User-Agent'', userAgent)]\<rparr>"

definition body_json_uah :: string where
  "body_json_uah = ''|0|2024-01-10T00:00:00|2450|50''"

definition item_uah :: "nat currencyData" where
  "item_uah =
     \<lparr>Name = ''uah'', DivOn = 1000, Date = ''2024-01-10T00:00:00'', Curs = 2450, Diff = 50\<rparr>"

definition disk_json_uah :: "string \<rightharpoonup> bucket" where
  "disk_json_uah = [''cache'' \<mapsto> [''10.01.2024-uah'' \<mapsto> ''uah|1000|2024-01-10T00:00:00|2450|50'']]"

text \<open>The two currencies of the first bulletin, as the decoder returns them.\<close>

definition valute_uah :: Valute where
  "valute_uah =
     \<lparr>ID = [], NumCode = 0, CharCode = ''UAH'', Nominal = 10, Name_v = [],
      Value = ''912,50'', Date_v = zero_time\<rparr>"

definition valute_usd :: Valute where
  "valute_usd =
     \<lparr>ID = [], NumCode = 0, CharCode = ''USD'', Nominal = 1, Name_v = [],
      Value = ''91,00'', Date_v = zero_time\<rparr>"

text \<open>The cache file of the XML variant once it holds the dollar and the hryvnia.\<close>

definition disk_xml_both :: "string \<rightharpoonup> bucket" where
  "disk_xml_both =
     [''cache'' \<mapsto> [''10.01.2024-usd'' \<mapsto> ''10.01.2024|USD|91.00'',
                     ''10.01.2024-uah'' \<mapsto> ''10.01.2024|UAH|91.25'']]"

text \<open>
  A process whose provider answers during the first lookup only, with the first
  bulletin, and is down from the second lookup on.
\<close>

definition process_first_up :: process where
  "process_first_up =
     \<lparr>MkdirAll_fault = None,
      bolt_Open = Inr Map.empty,
      lookup_env = (\<lambda>i. if i = 0 then env_ok body_xml_1 else env_down),
      start_time = t_10_01_2024,
      WriteAll = (\<lambda>rows. (rows, None))\<rparr>"

text \<open>A cache file whose entry for the dollar was cut off: no bytes are left of it.\<close>

definition disk_truncated :: "string \<rightharpoonup> bucket" where
  "disk_truncated = [''cache'' \<mapsto> [''10.01.2024-usd'' \<mapsto> []]]"

text \<open>
  Command lines: three currencies of which the second is unknown, for each variant; two
  known currencies for the XML variant.
\<close>

definition flags_batch :: flags where
  "flags_batch =
     \<lparr>currency_flag = ''usd,xyz,eur'', skipCache_flag = False,
      usd_flag = False, eur_flag = False, uah_flag = False\<rparr>"

definition flags_batch_xml :: flags_xml where
  "flags_batch_xml = \<lparr>currency_flag_x = ''usd,xyz,uah'', skipCache_flag_x = False, daysBefore_flag = 0\<rparr>"

definition flags_two_xml :: flags_xml where
  "flags_two_xml = \<lparr>currency_flag_x = ''usd,uah'', skipCache_flag_x = False, daysBefore_flag = 0\<rparr>"

section \<open>Evaluation of the decimal digits\<close>

lemma decimal_numeral [simp]:
  "decimal (numeral k) =
     (if (numeral k :: nat) < 10 then [digit_char (numeral k)]
      else decimal (numeral k div 10) @ [digit_char (numeral k mod 10)])"
  by (rule decimal.simps)

lemma decimal_0 [simp]: "decimal 0 = ''0''"
  by (simp add: decimal.simps digit_char_def)

lemma decimal_Suc_0 [simp]: "decimal (Suc 0) = ''1''"
  by (simp add: decimal.simps digit_char_def)

section \<open>The cache key determines the date and the name\<close>

lemma lt10_cases: "d < 10 \<Longrightarrow> d = 0 \<or> d = 1 \<or> d = 2 \<or> d = 3 \<or> d = 4 \<or> d = 5 \<or> d = 6 \<or> d = 7 \<or> d = 8 \<or> d = (9::nat)"
  by arith

lemma digit_val_digit_char: "d < 10 \<Longrightarrow> digit_val (digit_char d) = d"
  using lt10_cases [of d] by (auto simp: digit_val_def digit_char_def)

lemma digit_char_in: "d < 10 \<Longrightarrow> digit_char d \<in> set ''0123456789''"
  using lt10_cases [of d] by (auto simp: digit_char_def)

lemma decimal_val_snoc: "decimal_val (ds @ [c]) = 10 * decimal_val ds + digit_val c"
  by (simp add: decimal_val_def)

lemma decimal_val_decimal: "decimal_val (decimal n) = n"
proof (induction n rule: decimal.induct)
  case (1 n)
  show ?case
  proof (cases "n < 10")
    case True
    then show ?thesis
      by (subst decimal.simps) (simp add: decimal_val_def digit_val_digit_char)
  next
    case False
    then have "decimal_val (decimal (n div 10)) = n div 10" using 1 by simp
    with False show ?thesis
      by (subst decimal.simps) (simp add: decimal_val_snoc digit_val_digit_char)
  qed
qed

lemma decimal_digits: "set (decimal n) \<subseteq> set ''0123456789''"
proof (induction n rule: decimal.induct)
  case (1 n)
  show ?case
  proof (cases "n < 10")
    case True
    then show ?thesis using digit_char_in [of n]
      by (subst decimal.simps) simp
  next
    case False
    then have "set (decimal (n div 10)) \<subseteq> set ''0123456789''" using 1 by simp
    moreover have "digit_char (n mod 10) \<in> set ''0123456789''" by (rule digit_char_in) simp
    ultimately show ?thesis using False
      by (subst decimal.simps) simp
  qed
qed

lemma decimal_nonempty: "decimal n \<noteq> []"
  by (subst decimal.simps) simp

lemma decimal_val_zeros: "decimal_val (replicate k (CHR ''0'') @ ds) = decimal_val ds"
proof -
  have "foldl (\<lambda>a c. 10 * a + digit_val c) 0 (replicate k (CHR ''0'')) = 0"
    by (induction k) (simp_all add: digit_val_def)
  then show ?thesis by (simp add: decimal_val_def)
qed

lemma padded_val: "decimal_val (padded w n) = n"
  by (simp add: padded_def decimal_val_zeros decimal_val_decimal)

lemma padded_inj: "padded w m = padded w n \<Longrightarrow> m = n"
  by (metis padded_val)

lemma padded_digits: "set (padded w n) \<subseteq> set ''0123456789''"
  using decimal_digits [of n] by (auto simp: padded_def)

lemma decimal_lt10: "n < 10 \<Longrightarrow> decimal n = [digit_char n]"
  by (subst decimal.simps) simp

lemma decimal_ge10: "\<not> n < 10 \<Longrightarrow> decimal n = decimal (n div 10) @ [digit_char (n mod 10)]"
  by (subst decimal.simps) simp

lemma decimal_length_lt100: "n < 100 \<Longrightarrow> length (decimal n) \<le> 2"
proof (cases "n < 10")
  case True
  then show ?thesis by (simp add: decimal_lt10)
next
  case False
  assume "n < 100"
  then have "n div 10 < 10" by simp
  with False show ?thesis by (simp add: decimal_ge10 decimal_lt10)
qed

lemma padded2_length: "n < 100 \<Longrightarrow> length (padded 2 n) = 2"
  using decimal_length_lt100 [of n] by (simp add: padded_def)

lemma appendInt_nonneg: "0 \<le> x \<Longrightarrow> appendInt [] x w = padded w (nat x)"
  by (simp add: appendInt_def padded_def Let_def)

lemma appendInt_neg: "x < 0 \<Longrightarrow> appendInt [] x w = CHR ''-'' # padded w (nat (- x))"
  by (simp add: appendInt_def padded_def Let_def)

lemma padded_hd: "padded w n \<noteq> [] \<and> hd (padded w n) \<noteq> CHR ''-''"
proof -
  have ne: "padded w n \<noteq> []" by (simp add: padded_def decimal_nonempty)
  then have "hd (padded w n) \<in> set (padded w n)" by simp
  then have "hd (padded w n) \<in> set ''0123456789''" using padded_digits by blast
  then show ?thesis using ne by auto
qed

lemma takeWhile_upto: "c \<notin> set xs \<Longrightarrow> takeWhile (\<lambda>x. x \<noteq> c) (xs @ c # a) = xs"
  by (induction xs) auto

lemma split_at_first:
  assumes "c \<notin> set xs" "c \<notin> set ys" "xs @ c # a = ys @ c # b"
  shows "xs = ys \<and> a = b"
proof -
  have "takeWhile (\<lambda>x. x \<noteq> c) (xs @ c # a) = takeWhile (\<lambda>x. x \<noteq> c) (ys @ c # b)"
    using assms(3) by simp
  then have "xs = ys" using assms(1,2) by (simp add: takeWhile_upto)
  with assms(3) show ?thesis by simp
qed

lemma year_suffix_inj:
  assumes "appendInt [] y 4 @ ''-'' @ n = appendInt [] y' 4 @ ''-'' @ n'"
  shows "y = y' \<and> n = n'"
proof -
  have split: "padded 4 a @ ''-'' @ n = padded 4 b @ ''-'' @ n' \<Longrightarrow> a = b \<and> n = n'" for a b
  proof -
    assume e: "padded 4 a @ ''-'' @ n = padded 4 b @ ''-'' @ n'"
    have "CHR ''-'' \<notin> set (padded 4 a)" "CHR ''-'' \<notin> set (padded 4 b)"
      using padded_digits by auto
    from split_at_first [OF this] e have "padded 4 a = padded 4 b \<and> n = n'"
      by simp
    then show ?thesis using padded_inj by blast
  qed
  consider "0 \<le> y" "0 \<le> y'" | "y < 0" "y' < 0" | "0 \<le> y" "y' < 0" | "y < 0" "0 \<le> y'"
    by linarith
  then show ?thesis
  proof cases
    case 1
    with assms split [of "nat y" "nat y'"] have "nat y = nat y' \<and> n = n'"
      by (simp add: appendInt_nonneg)
    with 1 show ?thesis by (simp add: nat_eq_iff)
  next
    case 2
    with assms split [of "nat (- y)" "nat (- y')"] have "nat (- y) = nat (- y') \<and> n = n'"
      by (simp add: appendInt_neg)
    with 2 show ?thesis by (simp add: nat_eq_iff)
  next
    case 3
    with assms have "padded 4 (nat y) @ ''-'' @ n = CHR ''-'' # padded 4 (nat (- y')) @ ''-'' @ n'"
      by (simp add: appendInt_nonneg appendInt_neg)
    then have "hd (padded 4 (nat y) @ ''-'' @ n) = CHR ''-''"
      by simp
    then show ?thesis using padded_hd [of 4 "nat y"] by (simp add: hd_append)
  next
    case 4
    with assms have "padded 4 (nat y') @ ''-'' @ n' = CHR ''-'' # padded 4 (nat (- y)) @ ''-'' @ n"
      by (simp add: appendInt_nonneg appendInt_neg)
    then have "hd (padded 4 (nat y') @ ''-'' @ n') = CHR ''-''"
      by simp
    then show ?thesis using padded_hd [of 4 "nat y'"] by (simp add: hd_append)
  qed
qed

lemma Format_output:
  "Format t outputDateFormat =
     padded 2 (day t) @ ''.'' @ padded 2 (month t) @ ''.'' @ appendInt [] (year t) 4"
  by (simp add: Format_def outputDateFormat_def appendInt_nonneg)

lemma cacheKey_inj:
  assumes "valid_date t" "valid_date t'" "cacheKey t n = cacheKey t' n'"
  shows "same_date t t' \<and> n = n'"
proof -
  let ?d = "padded 2 (day t)" and ?d' = "padded 2 (day t')"
  let ?m = "padded 2 (month t)" and ?m' = "padded 2 (month t')"
  have ld: "length ?d = length ?d'" and lm: "length ?m = length ?m'"
    using assms(1,2) by (simp_all add: valid_date_def padded2_length)
  from assms(3) have e:
    "?d @ (''.'' @ ?m @ ''.'' @ appendInt [] (year t) 4 @ ''-'' @ n) =
     ?d' @ (''.'' @ ?m' @ ''.'' @ appendInt [] (year t') 4 @ ''-'' @ n')"
    by (simp add: cacheKey_def Format_output)
  from e ld have d: "?d = ?d'"
    and r1: "?m @ (''.'' @ appendInt [] (year t) 4 @ ''-'' @ n) = ?m' @ (''.'' @ appendInt [] (year t') 4 @ ''-'' @ n')"
    by simp_all
  from r1 lm have m: "?m = ?m'"
    and r2: "appendInt [] (year t) 4 @ ''-'' @ n = appendInt [] (year t') 4 @ ''-'' @ n'"
    by simp_all
  from d m year_suffix_inj [OF r2] show ?thesis
    using padded_inj by (auto simp: same_date_def)
qed


lemma decimal_length_lt10000: "n < 10000 \<Longrightarrow> length (decimal n) \<le> 4"
proof -
  assume n: "n < 10000"
  show ?thesis
  proof (cases "n < 100")
    case True
    then show ?thesis using decimal_length_lt100 [of n] by simp
  next
    case False
    from n have "n div 10 div 10 < 100" by simp
    then have l: "length (decimal (n div 10 div 10)) \<le> 2" by (rule decimal_length_lt100)
    from False have a: "\<not> n < 10" and b: "\<not> n div 10 < 10" by simp_all
    show ?thesis using l by (simp add: decimal_ge10 [OF a] decimal_ge10 [OF b])
  qed
qed

lemma padded4_length: "n < 10000 \<Longrightarrow> length (padded 4 n) = 4"
  using decimal_length_lt10000 [of n] by (simp add: padded_def)

lemma Format_output_shape:
  assumes "valid_date t" "0 \<le> year t" "year t \<le> 9999"
  shows "length (Format t outputDateFormat) = 10"
    and "Format t outputDateFormat ! 2 = CHR ''.''"
    and "Format t outputDateFormat ! 5 = CHR ''.''"
    and "decimal_val (take 2 (Format t outputDateFormat)) = day t"
    and "decimal_val (take 2 (drop 3 (Format t outputDateFormat))) = month t"
    and "decimal_val (drop 6 (Format t outputDateFormat)) = nat (year t)"
proof -
  have d: "length (padded 2 (day t)) = 2" and m: "length (padded 2 (month t)) = 2"
    using assms(1) by (simp_all add: valid_date_def padded2_length)
  have y: "length (padded 4 (nat (year t))) = 4"
    using assms(2,3) by (simp add: padded4_length)
  have F: "Format t outputDateFormat =
      padded 2 (day t) @ ''.'' @ padded 2 (month t) @ ''.'' @ padded 4 (nat (year t))"
    using assms(2) by (simp add: Format_output appendInt_nonneg)
  show "length (Format t outputDateFormat) = 10" by (simp add: F d m y)
  show "Format t outputDateFormat ! 2 = CHR ''.''" by (simp add: F nth_append d)
  show "Format t outputDateFormat ! 5 = CHR ''.''" by (simp add: F nth_append d m)
  show "decimal_val (take 2 (Format t outputDateFormat)) = day t"
    by (simp add: F d padded_val)
  show "decimal_val (take 2 (drop 3 (Format t outputDateFormat))) = month t"
    by (simp add: F d m padded_val)
  show "decimal_val (drop 6 (Format t outputDateFormat)) = nat (year t)"
    by (simp add: F d m padded_val)
qed

lemma same_date_cacheKey: "same_date t t2 \<Longrightarrow> cacheKey t2 name = cacheKey t name"
  by (simp add: same_date_def cacheKey_def Format_def outputDateFormat_def)

section \<open>The lookups, step by step\<close>

text \<open>The provider calls touch neither the store nor, in the JSON variant, the rates.\<close>

lemma getCurrencyItem_state:
  assumes "getCurrencyItem lib env name t st = (res, st1)"
  shows "cacheStorage st1 = cacheStorage st \<and> currenciesRate st1 = currenciesRate st \<and>
         provider_calls st1 = Suc (provider_calls st)"
  using assms
  by (auto simp: getCurrencyItem_def Let_def split: option.splits sum.splits if_splits)

lemma getCurrencyRates_state:
  assumes "getCurrencyRates lib env t st = (res, st1)"
  shows "cacheStorage st1 = cacheStorage st \<and> provider_calls st1 = provider_calls st"
  using assms
  by (auto simp: getCurrencyRates_def Let_def split: option.splits sum.splits if_splits prod.splits)

lemma getCurrencyRate_state:
  assumes "getCurrencyRate lib env name t st = (res, st1)"
  shows "cacheStorage st1 = cacheStorage st \<and> provider_calls st1 = Suc (provider_calls st)"
proof -
  obtain res0 st0 where g: "getCurrencyRates lib env t (st\<lparr>provider_calls := Suc (provider_calls st)\<rparr>) = (res0, st0)"
    by (cases "getCurrencyRates lib env t (st\<lparr>provider_calls := Suc (provider_calls st)\<rparr>)")
  from getCurrencyRates_state [OF g] have "cacheStorage st0 = cacheStorage st \<and> provider_calls st0 = Suc (provider_calls st)"
    by simp
  moreover from assms g have "st1 = st0"
    by (auto simp: getCurrencyRate_def Let_def split: result.splits option.splits)
  ultimately show ?thesis by simp
qed

text \<open>The block at \<open>skipCache:\<close>, by the outcome of the provider call.\<close>

lemma skipCache_block_cases:
  assumes p: "getCurrencyItem lib env name t st = (res, st1)"
  shows "skipCache_block lib env name t key tx st =
     (case res of
        Err e \<Rightarrow> (Err e, st1)
      | Panic p \<Rightarrow> (Panic p, st1)
      | Ok r \<Rightarrow>
          (case json_Marshal_item lib r of
             Inl e \<Rightarrow> (Err e, st1)
           | Inr val \<Rightarrow>
               (case Put tx ''cache'' key val of
                  Inl e \<Rightarrow> (Err e, st1)
                | Inr tx1 \<Rightarrow>
                    (case Commit_fault env of
                       Some e \<Rightarrow> (Err e, st1)
                     | None \<Rightarrow> (Ok r, st1\<lparr>cacheStorage := (cacheStorage st)\<lparr>buckets := tx1\<rparr>\<rparr>)))))"
  using getCurrencyItem_state [OF p]
  by (simp add: skipCache_block_def p Commit_def split: result.splits sum.splits option.splits)

lemma skipCache_block_xml_cases:
  assumes p: "getCurrencyRate lib env name t st = (res, st1)"
  shows "skipCache_block_xml lib env name t key tx st =
     (case res of
        Err e \<Rightarrow> (Err e, st1)
      | Panic p \<Rightarrow> (Panic p, st1)
      | Ok r \<Rightarrow>
          (case json_Marshal_row lib r of
             Inl e \<Rightarrow> (Err e, st1)
           | Inr val \<Rightarrow>
               (case Put tx ''cache'' key val of
                  Inl e \<Rightarrow> (Err e, st1)
                | Inr tx1 \<Rightarrow>
                    (case Commit_fault env of
                       Some e \<Rightarrow> (Err e, st1)
                     | None \<Rightarrow> (Ok r, st1\<lparr>cacheStorage := (cacheStorage st)\<lparr>buckets := tx1\<rparr>\<rparr>)))))"
  using getCurrencyRate_state [OF p]
  by (simp add: skipCache_block_xml_def p Commit_def split: result.splits sum.splits option.splits)

lemma skipCache_block_failure:
  assumes "skipCache_block lib env name t key tx st = (res, st')" "\<forall>r. res \<noteq> Ok r"
  shows "cacheStorage st' = cacheStorage st"
proof -
  obtain res0 st1 where p: "getCurrencyItem lib env name t st = (res0, st1)"
    by (cases "getCurrencyItem lib env name t st")
  from assms getCurrencyItem_state [OF p] show ?thesis
    by (auto simp: skipCache_block_cases [OF p] split: result.splits sum.splits option.splits)
qed

lemma skipCache_block_xml_failure:
  assumes "skipCache_block_xml lib env name t key tx st = (res, st')" "\<forall>r. res \<noteq> Ok r"
  shows "cacheStorage st' = cacheStorage st"
proof -
  obtain res0 st1 where p: "getCurrencyRate lib env name t st = (res0, st1)"
    by (cases "getCurrencyRate lib env name t st")
  from assms getCurrencyRate_state [OF p] show ?thesis
    by (auto simp: skipCache_block_xml_cases [OF p] split: result.splits sum.splits option.splits)
qed

lemma Put_result:
  "Put (tx(''cache'' \<mapsto> b)) ''cache'' key val = Inr tx1 \<Longrightarrow> tx1 = tx(''cache'' \<mapsto> b(key \<mapsto> val))"
  by (auto simp: Put_def split: if_splits)

lemma skipCache_block_Ok:
  assumes "skipCache_block lib env name t key (tx(''cache'' \<mapsto> b)) st = (Ok r, st')"
  shows "fst (getCurrencyItem lib env name t st) = Ok r \<and>
         (\<exists>val. json_Marshal_item lib r = Inr val \<and>
                buckets (cacheStorage st') = tx(''cache'' \<mapsto> b(key \<mapsto> val))) \<and>
         opened (cacheStorage st') = opened (cacheStorage st) \<and>
         readOnly (cacheStorage st') = readOnly (cacheStorage st) \<and>
         snd (getCurrencyItem lib env name t st) = st'\<lparr>cacheStorage := cacheStorage st\<rparr>"
proof -
  obtain res st1 where p: "getCurrencyItem lib env name t st = (res, st1)"
    by (cases "getCurrencyItem lib env name t st")
  from assms getCurrencyItem_state [OF p] show ?thesis
    by (auto simp: skipCache_block_cases [OF p] p split: result.splits sum.splits option.splits
             dest!: Put_result)
qed

lemma skipCache_block_xml_Ok:
  assumes "skipCache_block_xml lib env name t key (tx(''cache'' \<mapsto> b)) st = (Ok r, st')"
  shows "fst (getCurrencyRate lib env name t st) = Ok r \<and>
         (\<exists>val. json_Marshal_row lib r = Inr val \<and>
                buckets (cacheStorage st') = tx(''cache'' \<mapsto> b(key \<mapsto> val))) \<and>
         opened (cacheStorage st') = opened (cacheStorage st) \<and>
         readOnly (cacheStorage st') = readOnly (cacheStorage st) \<and>
         snd (getCurrencyRate lib env name t st) = st'\<lparr>cacheStorage := cacheStorage st\<rparr>"
proof -
  obtain res st1 where p: "getCurrencyRate lib env name t st = (res, st1)"
    by (cases "getCurrencyRate lib env name t st")
  from assms getCurrencyRate_state [OF p] show ?thesis
    by (auto simp: skipCache_block_xml_cases [OF p] p split: result.splits sum.splits option.splits
             dest!: Put_result)
qed

lemma skipCache_block_calls:
  "provider_calls (snd (skipCache_block lib env name t key tx st)) = Suc (provider_calls st)"
proof -
  obtain res st1 where p: "getCurrencyItem lib env name t st = (res, st1)"
    by (cases "getCurrencyItem lib env name t st")
  from getCurrencyItem_state [OF p] show ?thesis
    by (auto simp: skipCache_block_cases [OF p] split: result.splits sum.splits option.splits)
qed

lemma skipCache_block_xml_calls:
  "provider_calls (snd (skipCache_block_xml lib env name t key tx st)) = Suc (provider_calls st)"
proof -
  obtain res st1 where p: "getCurrencyRate lib env name t st = (res, st1)"
    by (cases "getCurrencyRate lib env name t st")
  from getCurrencyRate_state [OF p] show ?thesis
    by (auto simp: skipCache_block_xml_cases [OF p] split: result.splits sum.splits option.splits)
qed

lemma skipCache_block_xml_state:
  assumes "getCurrencyRate lib env name t st = (res0, st0)"
    and "skipCache_block_xml lib env name t key tx st = (res, st1)"
  shows "requests st1 = requests st0 \<and> currenciesRate st1 = currenciesRate st0 \<and>
         (\<forall>r. res = Ok r \<longrightarrow> res0 = Ok r)"
  using assms(2)
  by (auto simp: skipCache_block_xml_cases [OF assms(1)] split: result.splits sum.splits option.splits)

text \<open>With the store ready, the transaction opens on the committed buckets.\<close>

lemma Begin_ready: "store_ready st \<Longrightarrow> Begin (cacheStorage st) = Inr (buckets (cacheStorage st))"
  by (simp add: store_ready_def Begin_def)

lemma CreateBucket_cache:
  "CreateBucketIfNotExists tx ''cache'' = Inr (tx(''cache'' \<mapsto> (case tx ''cache'' of None \<Rightarrow> Map.empty | Some b \<Rightarrow> b)))"
  by (auto simp: CreateBucketIfNotExists_def split: option.splits)

lemma Get_created:
  "Get (tx(''cache'' \<mapsto> (case tx ''cache'' of None \<Rightarrow> Map.empty | Some b \<Rightarrow> b))) ''cache'' key = Get tx ''cache'' key"
  by (simp add: Get_def split: option.splits)

lemma lookup_ready:
  assumes "store_ready st"
  shows "getCurrencyItemCache lib env name t skip st =
     (let tx = (buckets (cacheStorage st))(''cache'' \<mapsto> cache_bucket st) in
      if skip then skipCache_block lib env name t (cacheKey t name) tx st
      else case cached st (cacheKey t name) of
             None \<Rightarrow> skipCache_block lib env name t (cacheKey t name) tx st
           | Some val \<Rightarrow>
               (case json_Unmarshal_item lib val of
                  Inl e \<Rightarrow> (Err e, st)
                | Inr r \<Rightarrow> (Ok r, st)))"
  by (simp add: getCurrencyItemCache_def Let_def Begin_ready [OF assms] CreateBucket_cache
        Get_created cached_def cache_bucket_def)

lemma lookup_xml_ready:
  assumes "store_ready st"
  shows "getCurrencyItemCache_xml lib env name t skip st =
     (let tx = (buckets (cacheStorage st))(''cache'' \<mapsto> cache_bucket st) in
      if skip then skipCache_block_xml lib env name t (cacheKey t name) tx st
      else case cached st (cacheKey t name) of
             None \<Rightarrow> skipCache_block_xml lib env name t (cacheKey t name) tx st
           | Some val \<Rightarrow>
               (case json_Unmarshal_row lib val of
                  Inl e \<Rightarrow> (Err e, st)
                | Inr r \<Rightarrow> (Ok r, st)))"
  by (simp add: getCurrencyItemCache_xml_def Let_def Begin_ready [OF assms] CreateBucket_cache
        Get_created cached_def cache_bucket_def)

lemma lookup_not_ready:
  assumes "\<not> store_ready st"
  shows "\<exists>e. getCurrencyItemCache lib env name t skip st = (Err e, st)"
    and "\<exists>e. getCurrencyItemCache_xml lib env name t skip st = (Err e, st)"
  using assms
  by (auto simp: getCurrencyItemCache_def getCurrencyItemCache_xml_def Let_def store_ready_def Begin_def)

lemma lookup_Ok_ready:
  assumes "getCurrencyItemCache lib env name t skip st = (Ok r, st')"
  shows "store_ready st"
proof (rule ccontr)
  assume "\<not> store_ready st"
  from lookup_not_ready(1) [OF this] obtain e where
    "getCurrencyItemCache lib env name t skip st = (Err e, st)" by blast
  with assms show False by simp
qed

lemma lookup_xml_Ok_ready:
  assumes "getCurrencyItemCache_xml lib env name t skip st = (Ok r, st')"
  shows "store_ready st"
proof (rule ccontr)
  assume "\<not> store_ready st"
  from lookup_not_ready(2) [OF this] obtain e where
    "getCurrencyItemCache_xml lib env name t skip st = (Err e, st)" by blast
  with assms show False by simp
qed



lemma second_lookup_hits:
  assumes "getCurrencyItemCache lib env1 name t False st = (Ok r, st1)"
    and "same_date t t2"
    and "\<forall>val. json_Marshal_item lib r = Inr val \<longrightarrow> json_Unmarshal_item lib val = Inr r"
  shows "getCurrencyItemCache lib env2 name t2 False st1 = (Ok r, st1)"
proof -
  have ready: "store_ready st" using assms(1) by (rule lookup_Ok_ready)
  have key: "cacheKey t2 name = cacheKey t name" using assms(2) by (rule same_date_cacheKey)
  show ?thesis
  proof (cases "cached st (cacheKey t name)")
    case None
    with assms(1) have b: "skipCache_block lib env1 name t (cacheKey t name)
          ((buckets (cacheStorage st))(''cache'' \<mapsto> cache_bucket st)) st = (Ok r, st1)"
      by (simp add: lookup_ready [OF ready])
    from skipCache_block_Ok [OF b] obtain val where
      m: "json_Marshal_item lib r = Inr val" and
      s: "buckets (cacheStorage st1) =
            (buckets (cacheStorage st))(''cache'' \<mapsto> (cache_bucket st)(cacheKey t name \<mapsto> val))" and
      o: "opened (cacheStorage st1) = opened (cacheStorage st)"
         "readOnly (cacheStorage st1) = readOnly (cacheStorage st)"
      by blast
    from o ready have ready1: "store_ready st1" by (simp add: store_ready_def)
    from s have hit: "cached st1 (cacheKey t2 name) = Some val"
      by (simp add: cached_def Get_def key)
    from assms(3) m have "json_Unmarshal_item lib val = Inr r" by blast
    with hit show ?thesis by (simp add: lookup_ready [OF ready1])
  next
    case (Some val)
    with assms(1) have "st1 = st" and "json_Unmarshal_item lib val = Inr r"
      by (auto simp: lookup_ready [OF ready] split: sum.splits)
    with Some ready show ?thesis by (simp add: lookup_ready key)
  qed
qed

lemma second_lookup_xml_hits:
  assumes "getCurrencyItemCache_xml lib env1 name t False st = (Ok row, st1)"
    and "same_date t t2"
    and "\<forall>val. json_Marshal_row lib row = Inr val \<longrightarrow> json_Unmarshal_row lib val = Inr row"
  shows "getCurrencyItemCache_xml lib env2 name t2 False st1 = (Ok row, st1)"
proof -
  have ready: "store_ready st" using assms(1) by (rule lookup_xml_Ok_ready)
  have key: "cacheKey t2 name = cacheKey t name" using assms(2) by (rule same_date_cacheKey)
  show ?thesis
  proof (cases "cached st (cacheKey t name)")
    case None
    with assms(1) have b: "skipCache_block_xml lib env1 name t (cacheKey t name)
          ((buckets (cacheStorage st))(''cache'' \<mapsto> cache_bucket st)) st = (Ok row, st1)"
      by (simp add: lookup_xml_ready [OF ready])
    from skipCache_block_xml_Ok [OF b] obtain val where
      m: "json_Marshal_row lib row = Inr val" and
      s: "buckets (cacheStorage st1) =
            (buckets (cacheStorage st))(''cache'' \<mapsto> (cache_bucket st)(cacheKey t name \<mapsto> val))" and
      o: "opened (cacheStorage st1) = opened (cacheStorage st)"
         "readOnly (cacheStorage st1) = readOnly (cacheStorage st)"
      by blast
    from o ready have ready1: "store_ready st1" by (simp add: store_ready_def)
    from s have hit: "cached st1 (cacheKey t2 name) = Some val"
      by (simp add: cached_def Get_def key)
    from assms(3) m have "json_Unmarshal_row lib val = Inr row" by blast
    with hit show ?thesis by (simp add: lookup_xml_ready [OF ready1])
  next
    case (Some val)
    with assms(1) have "st1 = st" and "json_Unmarshal_row lib val = Inr row"
      by (auto simp: lookup_xml_ready [OF ready] split: sum.splits)
    with Some ready show ?thesis by (simp add: lookup_xml_ready key)
  qed
qed

lemma bypass_stores:
  assumes "store_ready st" "getCurrencyItemCache lib env name t True st = (Ok r, st')"
  shows "fst (getCurrencyItem lib env name t st) = Ok r \<and>
         (\<exists>val. json_Marshal_item lib r = Inr val \<and>
            buckets (cacheStorage st') =
              (buckets (cacheStorage st))(''cache'' \<mapsto> (cache_bucket st)(cacheKey t name \<mapsto> val)))"
proof -
  from assms have b: "skipCache_block lib env name t (cacheKey t name)
      ((buckets (cacheStorage st))(''cache'' \<mapsto> cache_bucket st)) st = (Ok r, st')"
    by (simp add: lookup_ready)
  from skipCache_block_Ok [OF b] show ?thesis by simp
qed

lemma bypass_xml_stores:
  assumes "store_ready st" "getCurrencyItemCache_xml lib env name t True st = (Ok r, st')"
  shows "fst (getCurrencyRate lib env name t st) = Ok r \<and>
         (\<exists>val. json_Marshal_row lib r = Inr val \<and>
            buckets (cacheStorage st') =
              (buckets (cacheStorage st))(''cache'' \<mapsto> (cache_bucket st)(cacheKey t name \<mapsto> val)))"
proof -
  from assms have b: "skipCache_block_xml lib env name t (cacheKey t name)
      ((buckets (cacheStorage st))(''cache'' \<mapsto> cache_bucket st)) st = (Ok r, st')"
    by (simp add: lookup_xml_ready)
  from skipCache_block_xml_Ok [OF b] show ?thesis by simp
qed




lemma Valutes_loop_rows:
  "Valutes_loop lib t vs m = (eo, m') \<Longrightarrow> m' k = Some row \<Longrightarrow>
     m k = Some row \<or>
     (\<exists>v\<in>set vs. Valute_getRow lib (v\<lparr>Date_v := t\<rparr>) = Inr row \<and> ToLower (CharCode v) = k)"
proof (induction vs arbitrary: m)
  case Nil
  then show ?case by simp
next
  case (Cons v vs)
  show ?case
  proof (cases "Valute_getRow lib (v\<lparr>Date_v := t\<rparr>)")
    case (Inl e)
    with Cons.prems show ?thesis by simp
  next
    case (Inr r)
    with Cons.prems have "Valutes_loop lib t vs (m(ToLower (CharCode v) \<mapsto> r)) = (eo, m')"
      by simp
    from Cons.IH [OF this Cons.prems(2)] Inr show ?thesis
      by (auto split: if_splits)
  qed
qed

lemma Valutes_loop_dom:
  "Valutes_loop lib t vs m0 = (None, m) \<Longrightarrow>
   dom m = dom m0 \<union> (\<lambda>v. ToLower (CharCode v)) ` set vs"
proof (induction vs arbitrary: m0)
  case Nil
  then show ?case by simp
next
  case (Cons v vs)
  show ?case
  proof (cases "Valute_getRow lib (v\<lparr>Date_v := t\<rparr>)")
    case (Inl e)
    with Cons.prems show ?thesis by simp
  next
    case (Inr r)
    with Cons.prems have "Valutes_loop lib t vs (m0(ToLower (CharCode v) \<mapsto> r)) = (None, m)"
      by simp
    from Cons.IH [OF this] show ?thesis by auto
  qed
qed


section \<open>Iterating over the currencies in \<open>main\<close>\<close>

lemma main_loop_append:
  "main_loop lib ps skip i (pre @ post) rows st =
     (case main_loop lib ps skip i pre rows st of
        (Ok rows1, st1) \<Rightarrow> main_loop lib ps skip (i + length pre) post rows1 st1
      | (Err e, st1) \<Rightarrow> (Err e, st1)
      | (Panic p, st1) \<Rightarrow> (Panic p, st1))"
  by (induction pre arbitrary: i rows st) (auto split: prod.splits result.splits)

lemma main_loop_xml_append:
  "main_loop_xml lib ps skip date i (pre @ post) rows st =
     (case main_loop_xml lib ps skip date i pre rows st of
        (Ok rows1, st1) \<Rightarrow> main_loop_xml lib ps skip date (i + length pre) post rows1 st1
      | (Err e, st1) \<Rightarrow> (Err e, st1)
      | (Panic p, st1) \<Rightarrow> (Panic p, st1))"
  by (induction pre arbitrary: i rows st) (auto split: prod.splits result.splits)

lemma closed_same_work: "same_work st (closed st)"
  by (simp add: same_work_def closed_def Close_def)

lemma finish_failure:
  assumes "\<forall>rows. res \<noteq> Ok rows"
  shows "exit_status (finish ps (res, st)) \<noteq> 0 \<and> stdout (finish ps (res, st)) = [] \<and>
         same_work st (final (finish ps (res, st)))"
  using assms closed_same_work [of st]
  by (cases res) (simp_all add: finish_def same_work_def)

lemma final_finish: "requests (final (finish ps x)) = requests (snd x)"
  by (cases x) (auto simp: finish_def closed_def split: result.splits prod.splits option.splits)

lemma main_loop_stops:
  assumes "main_loop lib ps skip i pre rows st = (Ok rows1, st1)"
    and "getCurrencyItemCache lib (lookup_env ps (i + length pre)) c
           (Now (lookup_env ps (i + length pre))) skip st1 = (res, st2)"
    and "\<forall>r. res \<noteq> Ok r"
  shows "\<exists>res'. (\<forall>rows. res' \<noteq> Ok rows) \<and>
           main_loop lib ps skip i (pre @ c # post) rows st = (res', st2)"
  using assms by (cases res) (simp_all add: main_loop_append)

lemma main_loop_xml_stops:
  assumes "main_loop_xml lib ps skip date i pre rows st = (Ok rows1, st1)"
    and "getCurrencyItemCache_xml lib (lookup_env ps (i + length pre)) c date skip st1 = (res, st2)"
    and "\<forall>r. res \<noteq> Ok r"
  shows "\<exists>res'. (\<forall>rows. res' \<noteq> Ok rows) \<and>
           main_loop_xml lib ps skip date i (pre @ c # post) rows st = (res', st2)"
  using assms by (cases res) (simp_all add: main_loop_xml_append)

text \<open>The XML variant keeps \<open>fetched_once\<close> as long as its lookups succeed.\<close>

lemma getCurrencyRates_memo:
  "currenciesRate st \<noteq> Map.empty \<Longrightarrow> getCurrencyRates lib env t st = (Ok (currenciesRate st), st)"
  by (simp add: getCurrencyRates_def)

lemma getCurrencyRates_fetch:
  assumes "currenciesRate st = Map.empty" "getCurrencyRates lib env t st = (res, st1)"
  shows "length (requests st1) \<le> Suc (length (requests st)) \<and>
         (\<forall>m. res = Ok m \<longrightarrow> currenciesRate st1 = m)"
  using assms
  by (auto simp: getCurrencyRates_def Let_def split: option.splits sum.splits if_splits prod.splits)

lemma fetched_once_cong:
  "requests st1 = requests st0 \<Longrightarrow> currenciesRate st1 = currenciesRate st0 \<Longrightarrow>
   fetched_once st1 = fetched_once st0"
  by (simp add: fetched_once_def)

lemma fetched_once_requests: "fetched_once st \<Longrightarrow> length (requests st) \<le> 1"
  by (auto simp: fetched_once_def)

lemma fetched_once_opened: "fetched_once (opened_state disk)"
  by (simp add: fetched_once_def opened_state_def init_state_def)

lemma getCurrencyRate_step:
  assumes "fetched_once st" "getCurrencyRate lib env name t st = (res, st1)"
  shows "length (requests st1) \<le> 1 \<and> (\<forall>r. res = Ok r \<longrightarrow> fetched_once st1)"
proof -
  let ?st = "st\<lparr>provider_calls := Suc (provider_calls st)\<rparr>"
  obtain res0 st0 where g: "getCurrencyRates lib env t ?st = (res0, st0)"
    by (cases "getCurrencyRates lib env t ?st")
  from assms(2) g have st1: "st1 = st0"
    and ok: "\<forall>r. res = Ok r \<longrightarrow> (\<exists>m. res0 = Ok m \<and> m (ToLower name) = Some r)"
    by (auto simp: getCurrencyRate_def Let_def split: result.splits option.splits)
  show ?thesis
  proof (cases "currenciesRate st = Map.empty")
    case True
    with assms(1) have "requests st = []" by (auto simp: fetched_once_def)
    moreover from True have "currenciesRate ?st = Map.empty" by simp
    from getCurrencyRates_fetch [OF this g]
    have "length (requests st0) \<le> Suc (length (requests st))"
      and "\<forall>m. res0 = Ok m \<longrightarrow> currenciesRate st0 = m" by simp_all
    ultimately show ?thesis using ok st1 by (fastforce simp: fetched_once_def)
  next
    case False
    then have "currenciesRate ?st \<noteq> Map.empty" by simp
    from getCurrencyRates_memo [OF this, of lib env t] g have "st0 = ?st" by simp
    with False assms(1) st1 show ?thesis by (auto simp: fetched_once_def)
  qed
qed

lemma skipCache_block_xml_step:
  assumes "fetched_once st" "skipCache_block_xml lib env name t key tx st = (res, st1)"
  shows "length (requests st1) \<le> 1 \<and> (\<forall>r. res = Ok r \<longrightarrow> fetched_once st1)"
proof -
  obtain res0 st0 where p: "getCurrencyRate lib env name t st = (res0, st0)"
    by (cases "getCurrencyRate lib env name t st")
  from skipCache_block_xml_state [OF p assms(2)] getCurrencyRate_step [OF assms(1) p]
  show ?thesis using fetched_once_cong [of st1 st0] by auto
qed

lemma lookup_xml_step:
  assumes "fetched_once st" "getCurrencyItemCache_xml lib env name t skip st = (res, st1)"
  shows "length (requests st1) \<le> 1 \<and> (\<forall>r. res = Ok r \<longrightarrow> fetched_once st1)"
  using assms fetched_once_requests [OF assms(1)]
  by (auto simp: getCurrencyItemCache_xml_def Let_def split: sum.splits if_splits option.splits
           dest: skipCache_block_xml_step)

lemma main_loop_xml_requests:
  "fetched_once st \<Longrightarrow> length (requests (snd (main_loop_xml lib ps skip date i cs rows st))) \<le> 1"
proof (induction cs arbitrary: i rows st)
  case Nil
  then show ?case using fetched_once_requests [of st] by simp
next
  case (Cons c cs)
  obtain res st1 where l: "getCurrencyItemCache_xml lib (lookup_env ps i) c date skip st = (res, st1)"
    by (cases "getCurrencyItemCache_xml lib (lookup_env ps i) c date skip st")
  from lookup_xml_step [OF Cons.prems l] show ?case
    using Cons.IH [of st1] by (cases res) (simp_all add: l)
qed

lemma main_loop_xml_fetched_once:
  "fetched_once st \<Longrightarrow> main_loop_xml lib ps skip date i cs rows st = (Ok rows', st') \<Longrightarrow>
   fetched_once st'"
proof (induction cs arbitrary: i rows st)
  case Nil
  then show ?case by simp
next
  case (Cons c cs)
  obtain res st1 where l: "getCurrencyItemCache_xml lib (lookup_env ps i) c date skip st = (res, st1)"
    by (cases "getCurrencyItemCache_xml lib (lookup_env ps i) c date skip st")
  show ?case
  proof (cases res)
    case (Ok row)
    with lookup_xml_step [OF Cons.prems(1) l] have f: "fetched_once st1" by simp
    from Cons.prems(2) l Ok
    have "main_loop_xml lib ps skip date (Suc i) cs (rows @ [row]) st1 = (Ok rows', st')"
      by simp
    from Cons.IH [OF f this] show ?thesis .
  next
    case (Err e)
    with Cons.prems(2) l show ?thesis by simp
  next
    case (Panic p)
    with Cons.prems(2) l show ?thesis by simp
  qed
qed

text \<open>The first fetch records its request and fills \<open>currenciesRate\<close>; later calls read it.\<close>

lemma getCurrencyRates_request:
  assumes "currenciesRate st = Map.empty"
    and "NewRequest lib ''GET'' (urlTemplate_xml (Format t xmlDateFormat)) = Inr req0"
  shows "requests (snd (getCurrencyRates lib env t st)) =
           requests st @ [Header_Set req0 ''User-Agent'' userAgent]"
  using assms
  by (simp add: getCurrencyRates_def Let_def split: sum.splits prod.splits option.splits)

lemma getCurrencyRates_fetch_Ok:
  assumes "currenciesRate st = Map.empty" "getCurrencyRates lib env t st = (Ok m, st1)"
  shows "\<exists>req0 res body v.
     NewRequest lib ''GET'' (urlTemplate_xml (Format t xmlDateFormat)) = Inr req0 \<and>
     http_Do env (Header_Set req0 ''User-Agent'' userAgent) = Inr res \<and>
     StatusCode res = 200 \<and> ReadAll (Body res) = Inr body \<and>
     xml_Decode lib CharsetReader body = Inr v \<and>
     Valutes_loop lib t (Valutes v) Map.empty = (None, m) \<and>
     st1 = st\<lparr>requests := requests st @ [Header_Set req0 ''User-Agent'' userAgent],
              currenciesRate := m\<rparr>"
proof -
  from assms obtain req0 res body v where
    "NewRequest lib ''GET'' (urlTemplate_xml (Format t xmlDateFormat)) = Inr req0"
    "http_Do env (Header_Set req0 ''User-Agent'' userAgent) = Inr res"
    "StatusCode res = 200" "ReadAll (Body res) = Inr body"
    "xml_Decode lib CharsetReader body = Inr v"
    "Valutes_loop lib t (Valutes v) Map.empty = (None, m)"
    "st1 = st\<lparr>requests := requests st @ [Header_Set req0 ''User-Agent'' userAgent],
              currenciesRate := m\<rparr>"
    by (auto simp: getCurrencyRates_def Let_def
             split: option.splits sum.splits if_splits prod.splits)
  then show ?thesis
    by (intro exI [of _ req0] exI [of _ res] exI [of _ body] exI [of _ v]) simp
qed

lemma getCurrencyRate_memo:
  assumes "currenciesRate st \<noteq> Map.empty"
  shows "getCurrencyRate lib env name t st =
     (case currenciesRate st (ToLower name) of
        Some row \<Rightarrow> Ok row
      | None \<Rightarrow> Err (CannotGetCurrencyRate name),
      st\<lparr>provider_calls := Suc (provider_calls st)\<rparr>)"
proof -
  let ?st = "st\<lparr>provider_calls := Suc (provider_calls st)\<rparr>"
  from assms have "currenciesRate ?st \<noteq> Map.empty" by simp
  from getCurrencyRates_memo [OF this, of lib env t]
  show ?thesis
    by (simp add: getCurrencyRate_def Let_def split: option.splits)
qed

lemma bulletin_rows:
  assumes "Valutes_loop lib t vs Map.empty = (None, m)"
  shows "dom m = (\<lambda>v. ToLower (CharCode v)) ` set vs \<and>
         (\<forall>k row. m k = Some row \<longrightarrow>
            (\<exists>v\<in>set vs. ToLower (CharCode v) = k \<and>
               Valute_getRow lib (v\<lparr>Date_v := t\<rparr>) = Inr row))"
  using Valutes_loop_dom [OF assms] Valutes_loop_rows [OF assms]
  by fastforce

lemma served_from_memo:
  assumes "main_loop_xml lib ps skip date 0 pre [] (opened_state disk) = (Ok rows1, st1)"
    and "requests st1 \<noteq> []"
  shows "currenciesRate st1 \<noteq> Map.empty \<and>
         getCurrencyRate lib env name date st1 =
           (case currenciesRate st1 (ToLower name) of
              Some row \<Rightarrow> Ok row
            | None \<Rightarrow> Err (CannotGetCurrencyRate name),
            st1\<lparr>provider_calls := Suc (provider_calls st1)\<rparr>)"
proof -
  from main_loop_xml_fetched_once [OF fetched_once_opened assms(1)] assms(2)
  have "currenciesRate st1 \<noteq> Map.empty" by (auto simp: fetched_once_def)
  then show ?thesis using getCurrencyRate_memo by blast
qed










section \<open>The examples, evaluated\<close>

lemmas str_defs = ToLower_def ToUpper_def lower_byte_def upper_byte_def upper_letters_def
  lower_letters_def Replace_comma_dot_def digit_char_def appendInt_def Sprintf_d_def Format_def
  outputDateFormat_def xmlDateFormat_def urlDateTimeFormat_def cacheKey_def

lemmas lib0_defs = lib0_def NewRequest0_def Unmarshal_data0_def Unmarshal_item0_def
  Marshal_item0_def Unmarshal_row0_def Marshal_row0_def xml_Decode0_def Valute0_def
  ParseFloat0_def float64_of_int0_def fdiv0_def Sprintf_2f0_def time_Parse0_def
  time_AddDays0_def parse_digits_def decimal_val_def digit_val_def padded_def zero_time_def

lemmas bolt_defs = Begin_def CreateBucketIfNotExists_def Get_def Put_def Commit_def
  MaxKeySize_def MaxValueSize_def

lemmas prog_defs = getCurrencyItemCache_def skipCache_block_def getCurrencyItem_def
  currenciesInfo_def urlTemplate_def Header_Set_def userAgent_def getRow_def getDate_def
  getCurrencyItemCache_xml_def skipCache_block_xml_def getCurrencyRate_def getCurrencyRates_def
  urlTemplate_xml_def Valute_getRow_def CharsetReader_def

lemmas world_defs = env_ok_def env_down_def opened_state_def init_state_def t_10_01_2024_def
  t_10_01_2024_noon_def process0_def state_of_def request_usd_def request_bulletin_def
  body_json_1_def body_json_2_def item_usd_1_def item_usd_2_def disk_json_1_def disk_json_2_def
  body_xml_1_def body_xml_2_def rates_1_def rates_2_def disk_xml_1_def disk_xml_2_def
  disk_truncated_def request_uah_def body_json_uah_def item_uah_def disk_json_uah_def
  valute_uah_def valute_usd_def disk_xml_both_def

lemmas eval_defs = str_defs lib0_defs bolt_defs prog_defs world_defs Let_def

lemma opened_state_ready: "store_ready (opened_state disk)"
  by (simp add: store_ready_def opened_state_def init_state_def)


lemma state_of_fields:
  "currenciesRate (state_of disk rates reqs n) = rates"
  "requests (state_of disk rates reqs n) = reqs"
  "requests (closed (state_of disk rates reqs n)) = reqs"
  "currenciesRate (opened_state disk) = Map.empty"
  "requests (opened_state disk) = []"
  by (simp_all add: state_of_def closed_def opened_state_def init_state_def)

lemma process0_fields:
  "MkdirAll_fault (process0 disk env) = None"
  "bolt_Open (process0 disk env) = Inr disk"
  "lookup_env (process0 disk env) i = env"
  "start_time (process0 disk env) = t_10_01_2024"
  "WriteAll (process0 disk env) rows = (rows, None)"
  by (simp_all add: process0_def)

lemma process_first_up_fields:
  "MkdirAll_fault process_first_up = None"
  "bolt_Open process_first_up = Inr Map.empty"
  "lookup_env process_first_up 0 = env_ok body_xml_1"
  "lookup_env process_first_up (Suc 0) = env_down"
  "start_time process_first_up = t_10_01_2024"
  "WriteAll process_first_up rows = (rows, None)"
  by (simp_all add: process_first_up_def)

lemma Now_env_ok: "Now (env_ok body) = t_10_01_2024"
  by (simp add: env_ok_def)

lemma date_today: "time_AddDays lib0 t_10_01_2024 0 = t_10_01_2024"
  by (simp add: lib0_def time_AddDays0_def t_10_01_2024_def)

lemma ToLower_USD: "ToLower ''USD'' = ''usd''"
  by (simp add: ToLower_def lower_byte_def upper_letters_def lower_letters_def)

lemma ToLower_usd: "ToLower ''usd'' = ''usd''"
  by (simp add: ToLower_def lower_byte_def upper_letters_def lower_letters_def)


lemma valid_date_10_01_2024: "valid_date t_10_01_2024" "valid_date t_10_01_2024_noon"
  by (simp_all add: valid_date_def t_10_01_2024_def t_10_01_2024_noon_def)

lemma Format_10_01_2024:
  "Format t_10_01_2024 outputDateFormat = ''10.01.2024''"
  "Format t_10_01_2024_noon outputDateFormat = ''10.01.2024''"
  by (simp_all add: eval_defs)

lemma cached_empty: "cached (opened_state Map.empty) key = None"
  by (simp add: cached_def eval_defs)

lemma cached_json_1:
  "cached (state_of disk_json_1 rates reqs n) (cacheKey t_10_01_2024 ''usd'') =
     Some ''usd|100|2024-01-10T00:00:00|9100|50''"
  by (simp add: cached_def eval_defs)

lemma cached_xml_1:
  "cached (state_of disk_xml_1 rates reqs n) (cacheKey t_10_01_2024 ''usd'') =
     Some ''10.01.2024|USD|91.00''"
  by (simp add: cached_def eval_defs)

lemma cached_truncated: "cached (opened_state disk_truncated) (cacheKey t_10_01_2024 ''usd'') = Some []"
  by (simp add: cached_def eval_defs)

lemma same_date_noon: "same_date t_10_01_2024 t_10_01_2024_noon"
  by (simp add: same_date_def t_10_01_2024_def t_10_01_2024_noon_def)

lemma rates_1_nonempty: "rates_1 \<noteq> Map.empty"
  by (simp add: rates_1_def)

lemma provider_json_down:
  "getCurrencyItem lib0 env_down ''usd'' t_10_01_2024 (opened_state disk) =
     (Err (LibError ''context deadline exceeded''), state_of disk Map.empty [request_usd] (Suc 0))"
  by (simp add: eval_defs)

lemma provider_xml_down:
  "getCurrencyRate lib0 env_down ''usd'' t_10_01_2024 (opened_state disk) =
     (Err (LibError ''context deadline exceeded''), state_of disk Map.empty [request_bulletin] (Suc 0))"
  by (simp add: eval_defs)



lemma run_json_miss:
  "getCurrencyItemCache lib0 (env_ok body_json_1) ''usd'' t_10_01_2024 False (opened_state Map.empty) =
     (Ok item_usd_1, state_of disk_json_1 Map.empty [request_usd] (Suc 0))"
  by (simp add: eval_defs)

lemma run_json_bypass:
  "getCurrencyItemCache lib0 (env_ok body_json_2) ''usd'' t_10_01_2024 True (opened_state disk_json_1) =
     (Ok item_usd_2, state_of disk_json_2 Map.empty [request_usd] (Suc 0))"
  by (simp add: eval_defs)

lemma run_json_unknown:
  "getCurrencyItemCache lib0 (env_ok body_json_1) ''xyz'' t_10_01_2024 False
      (state_of disk_json_1 Map.empty [request_usd] (Suc 0)) =
     (Err (InvalidCurrencyName ''xyz''), state_of disk_json_1 Map.empty [request_usd] 2)"
  by (simp add: eval_defs)

lemma run_xml_miss:
  "getCurrencyItemCache_xml lib0 (env_ok body_xml_1) ''usd'' t_10_01_2024 False (opened_state Map.empty) =
     (Ok [''10.01.2024'', ''USD'', ''91.00''], state_of disk_xml_1 rates_1 [request_bulletin] (Suc 0))"
  by (simp add: eval_defs)

lemma run_xml_bypass:
  "getCurrencyItemCache_xml lib0 (env_ok body_xml_2) ''usd'' t_10_01_2024 True (opened_state disk_xml_1) =
     (Ok [''10.01.2024'', ''USD'', ''92.50''], state_of disk_xml_2 rates_2 [request_bulletin] (Suc 0))"
  by (simp add: eval_defs)

lemma run_xml_unknown:
  "getCurrencyItemCache_xml lib0 (env_ok body_xml_1) ''xyz'' t_10_01_2024 False
      (state_of disk_xml_1 rates_1 [request_bulletin] (Suc 0)) =
     (Err (CannotGetCurrencyRate ''xyz''), state_of disk_xml_1 rates_1 [request_bulletin] 2)"
  by (simp add: eval_defs)

lemma Marshal_item_usd_1:
  "json_Marshal_item lib0 item_usd_1 = Inr ''usd|100|2024-01-10T00:00:00|9100|50''"
  by (simp add: eval_defs)

lemma Unmarshal_item_usd_1:
  "json_Unmarshal_item lib0 ''usd|100|2024-01-10T00:00:00|9100|50'' = Inr item_usd_1"
  by (simp add: eval_defs)

lemma Marshal_row_usd_1:
  "json_Marshal_row lib0 [''10.01.2024'', ''USD'', ''91.00''] = Inr ''10.01.2024|USD|91.00''"
  by (simp add: eval_defs)

lemma Unmarshal_row_usd_1:
  "json_Unmarshal_row lib0 ''10.01.2024|USD|91.00'' = Inr [''10.01.2024'', ''USD'', ''91.00'']"
  by (simp add: eval_defs)

lemma Unmarshal_truncated:
  "json_Unmarshal_item lib0 [] = Inl (LibError ''cannot unmarshal'')"
  "json_Unmarshal_row lib0 [] = Inl (LibError ''unexpected end of JSON input'')"
  by (simp_all add: eval_defs)

lemma Unmarshal_empty_array: "json_Unmarshal_data lib0 ''[]'' = Inr []"
  by (simp add: lib0_def Unmarshal_data0_def)

lemma getRow_item_usd_1: "getRow lib0 item_usd_1 = Ok [''10.01.2024'', ''USD'', ''91.00'', ''0.50'']"
  by (simp add: eval_defs)

lemma main_loop_usd:
  "main_loop lib0 (process0 disk (env_ok body_json_1)) False 0 [''usd''] [] (opened_state Map.empty) =
     (Ok [[''10.01.2024'', ''USD'', ''91.00'', ''0.50'']], state_of disk_json_1 Map.empty [request_usd] (Suc 0))"
  by (simp add: process0_fields Now_env_ok run_json_miss getRow_item_usd_1)

lemma main_loop_xml_usd:
  "main_loop_xml lib0 (process0 disk (env_ok body_xml_1)) False t_10_01_2024 0 [''usd''] [] (opened_state Map.empty) =
     (Ok [[''10.01.2024'', ''USD'', ''91.00'']], state_of disk_xml_1 rates_1 [request_bulletin] (Suc 0))"
  by (simp add: process0_fields run_xml_miss)

lemma currenciesList_batch: "currenciesList flags_batch = [''usd''] @ ''xyz'' # [''eur'']"
  by (simp add: currenciesList_def flags_batch_def)

lemma Split_batch_xml: "Split (currency_flag_x flags_batch_xml) (CHR '','') = [''usd''] @ ''xyz'' # [''uah'']"
  by (simp add: flags_batch_xml_def)







text \<open>The first bulletin, fetched once and then read from memory.\<close>

lemma bulletin_request:
  "NewRequest lib0 ''GET'' (urlTemplate_xml (Format t_10_01_2024 xmlDateFormat)) =
     Inr \<lparr>Method = ''GET'', URL = ''https://www.cbr.ru/scripts/XML_daily.asp?date_req=10/01/2024'',
          Header = []\<rparr>"
  "Header_Set \<lparr>Method = ''GET'', URL = ''https://www.cbr.ru/scripts/XML_daily.asp?date_req=10/01/2024'',
               Header = []\<rparr> ''User-Agent'' userAgent = request_bulletin"
  by (simp_all add: eval_defs)

lemma bulletin_response:
  "http_Do (env_ok body_xml_1) request_bulletin =
     Inr \<lparr>StatusCode = 200, Status = ''200 OK'', Body = Bytes body_xml_1\<rparr>"
  by (simp add: env_ok_def)

lemma bulletin_decoded:
  "xml_Decode lib0 CharsetReader body_xml_1 =
     Inr \<lparr>Date_vc = [], Name_vc = [], Valutes = [valute_uah, valute_usd]\<rparr>"
  by (simp add: eval_defs)

lemma bulletin_rows_1:
  "Valutes_loop lib0 t_10_01_2024 [valute_uah, valute_usd] Map.empty = (None, rates_1)"
  by (simp add: eval_defs)

lemma valute_rows_1:
  "Valute_getRow lib0 (valute_uah\<lparr>Date_v := t_10_01_2024\<rparr>) = Inr [''10.01.2024'', ''UAH'', ''91.25'']"
  "Valute_getRow lib0 (valute_usd\<lparr>Date_v := t_10_01_2024\<rparr>) = Inr [''10.01.2024'', ''USD'', ''91.00'']"
  "ToLower (CharCode valute_uah) = ''uah''"
  "ToLower (CharCode valute_usd) = ''usd''"
  by (simp_all add: eval_defs)

lemma rates_1_rows:
  "dom rates_1 = {''uah'', ''usd''}"
  "rates_1 ''uah'' = Some [''10.01.2024'', ''UAH'', ''91.25'']"
  "rates_1 ''usd'' = Some [''10.01.2024'', ''USD'', ''91.00'']"
  by (auto simp: rates_1_def)

lemma fetch_bulletin_1:
  "getCurrencyRates lib0 (env_ok body_xml_1) t_10_01_2024 (opened_state Map.empty) =
     (Ok rates_1, state_of Map.empty rates_1 [request_bulletin] 0)"
  by (simp add: eval_defs)

lemma memo_serves_rates:
  "getCurrencyRates lib0 env_down t_10_01_2024 (state_of disk_xml_1 rates_1 [request_bulletin] (Suc 0)) =
     (Ok rates_1, state_of disk_xml_1 rates_1 [request_bulletin] (Suc 0))"
  by (simp add: eval_defs)

lemma memo_serves_uah:
  "getCurrencyRate lib0 env_down ''uah'' t_10_01_2024
      (state_of disk_xml_1 rates_1 [request_bulletin] (Suc 0)) =
     (Ok [''10.01.2024'', ''UAH'', ''91.25''], state_of disk_xml_1 rates_1 [request_bulletin] 2)"
  by (simp add: eval_defs)

lemma run_xml_uah_down:
  "getCurrencyItemCache_xml lib0 env_down ''uah'' t_10_01_2024 False
      (state_of disk_xml_1 rates_1 [request_bulletin] (Suc 0)) =
     (Ok [''10.01.2024'', ''UAH'', ''91.25''], state_of disk_xml_both rates_1 [request_bulletin] 2)"
  by (simp add: eval_defs)





lemma main_loop_xml_first_up:
  "main_loop_xml lib0 process_first_up False t_10_01_2024 0 [''usd''] [] (opened_state Map.empty) =
     (Ok [[''10.01.2024'', ''USD'', ''91.00'']], state_of disk_xml_1 rates_1 [request_bulletin] (Suc 0))"
  by (simp add: process_first_up_fields run_xml_miss)

lemma main_xml_first_up:
  "main_xml lib0 process_first_up flags_two_xml =
     \<lparr>exit_status = 0,
      stdout = [[''10.01.2024'', ''USD'', ''91.00''], [''10.01.2024'', ''UAH'', ''91.25'']],
      final = closed (state_of disk_xml_both rates_1 [request_bulletin] 2)\<rparr>"
  by (simp add: main_xml_def process_first_up_fields flags_two_xml_def date_today run_xml_miss
        run_xml_uah_down finish_def Let_def)

section \<open>The claims\<close>

subsection \<open>C1: a failing provider leaves the store as it was\<close>

text \<open>
  Claim C1. Whenever the provider call of a lookup fails (an error or a panic), the cache
  store is afterwards what it was before, in both cached variants: a key without an
  entry still has none, a key with an entry keeps its value. When the lookup reaches
  the provider (the store is ready, and the cache is bypassed or has no entry for the
  key), it returns the provider's failure unchanged.
\<close>

theorem provider_failure_keeps_store:
  "((\<forall>r. fst (getCurrencyItem lib env name t st) \<noteq> Ok r) \<longrightarrow>
      cacheStorage (snd (getCurrencyItemCache lib env name t skip st)) = cacheStorage st \<and>
      (store_ready st \<and> (skip \<or> cached st (cacheKey t name) = None) \<longrightarrow>
         fst (getCurrencyItemCache lib env name t skip st) = fst (getCurrencyItem lib env name t st))) \<and>
   ((\<forall>r. fst (getCurrencyRate lib env name t st) \<noteq> Ok r) \<longrightarrow>
      cacheStorage (snd (getCurrencyItemCache_xml lib env name t skip st)) = cacheStorage st \<and>
      (store_ready st \<and> (skip \<or> cached st (cacheKey t name) = None) \<longrightarrow>
         fst (getCurrencyItemCache_xml lib env name t skip st) = fst (getCurrencyRate lib env name t st)))"
proof (intro conjI impI)
  assume f: "\<forall>r. fst (getCurrencyItem lib env name t st) \<noteq> Ok r"
  obtain res st1 where p: "getCurrencyItem lib env name t st = (res, st1)"
    by (cases "getCurrencyItem lib env name t st")
  with f have nok: "\<forall>r. res \<noteq> Ok r" by simp
  have blk: "skipCache_block lib env name t key tx st = (res, st1)" for key tx
    using nok by (cases res) (simp_all add: skipCache_block_cases [OF p])
  show "cacheStorage (snd (getCurrencyItemCache lib env name t skip st)) = cacheStorage st"
  proof (cases "store_ready st")
    case True
    show ?thesis
      using getCurrencyItem_state [OF p]
      by (auto simp: lookup_ready [OF True] Let_def blk split: option.splits sum.splits)
  next
    case False
    from lookup_not_ready(1) [OF False] obtain e where
      "getCurrencyItemCache lib env name t skip st = (Err e, st)" by blast
    then show ?thesis by simp
  qed
  assume "store_ready st \<and> (skip \<or> cached st (cacheKey t name) = None)"
  then show "fst (getCurrencyItemCache lib env name t skip st) = fst (getCurrencyItem lib env name t st)"
    by (auto simp: lookup_ready Let_def blk p)
next
  assume f: "\<forall>r. fst (getCurrencyRate lib env name t st) \<noteq> Ok r"
  obtain res st1 where p: "getCurrencyRate lib env name t st = (res, st1)"
    by (cases "getCurrencyRate lib env name t st")
  with f have nok: "\<forall>r. res \<noteq> Ok r" by simp
  have blk: "skipCache_block_xml lib env name t key tx st = (res, st1)" for key tx
    using nok by (cases res) (simp_all add: skipCache_block_xml_cases [OF p])
  show "cacheStorage (snd (getCurrencyItemCache_xml lib env name t skip st)) = cacheStorage st"
  proof (cases "store_ready st")
    case True
    show ?thesis
      using getCurrencyRate_state [OF p]
      by (auto simp: lookup_xml_ready [OF True] Let_def blk split: option.splits sum.splits)
  next
    case False
    from lookup_not_ready(2) [OF False] obtain e where
      "getCurrencyItemCache_xml lib env name t skip st = (Err e, st)" by blast
    then show ?thesis by simp
  qed
  assume "store_ready st \<and> (skip \<or> cached st (cacheKey t name) = None)"
  then show "fst (getCurrencyItemCache_xml lib env name t skip st) = fst (getCurrencyRate lib env name t st)"
    by (auto simp: lookup_xml_ready Let_def blk p)
qed

text \<open>
  The provider is down, the cache holds a rate for the dollar, and the lookup bypasses
  the cache: it returns the provider's error and the cache still holds the old rate.
\<close>

theorem provider_failure_keeps_store_witness:
  "(\<forall>r. fst (getCurrencyItem lib0 env_down ''usd'' t_10_01_2024 (opened_state disk_json_1)) \<noteq> Ok r) \<and>
   (\<forall>r. fst (getCurrencyRate lib0 env_down ''usd'' t_10_01_2024 (opened_state disk_json_1)) \<noteq> Ok r) \<and>
   store_ready (opened_state disk_json_1) \<and>
   cacheStorage (snd (getCurrencyItemCache lib0 env_down ''usd'' t_10_01_2024 True (opened_state disk_json_1)))
     = cacheStorage (opened_state disk_json_1) \<and>
   fst (getCurrencyItemCache lib0 env_down ''usd'' t_10_01_2024 True (opened_state disk_json_1))
     = Err (LibError ''context deadline exceeded'') \<and>
   cacheStorage (snd (getCurrencyItemCache_xml lib0 env_down ''usd'' t_10_01_2024 True (opened_state disk_json_1)))
     = cacheStorage (opened_state disk_json_1) \<and>
   fst (getCurrencyItemCache_xml lib0 env_down ''usd'' t_10_01_2024 True (opened_state disk_json_1))
     = Err (LibError ''context deadline exceeded'')"
  using provider_failure_keeps_store
    [of lib0 env_down "''usd''" t_10_01_2024 "opened_state disk_json_1" True]
  by (simp add: provider_json_down provider_xml_down opened_state_ready)

subsection \<open>C2: what a cache entry holds\<close>




subsection \<open>C3: an entry that does not decode\<close>

text \<open>
  Claim C3. When the cache holds an entry for the key and the entry does not decode, a
  lookup that reads the cache (no bypass) changes nothing: no request is sent, the
  provider is not called, nothing is written. With the store ready it returns the
  decoding error.
\<close>

theorem decode_failure_is_returned:
  "(cached st (cacheKey t name) = Some val \<and> json_Unmarshal_item lib val = Inl e \<longrightarrow>
      snd (getCurrencyItemCache lib env name t False st) = st \<and>
      (store_ready st \<longrightarrow> fst (getCurrencyItemCache lib env name t False st) = Err e)) \<and>
   (cached st (cacheKey t name) = Some val \<and> json_Unmarshal_row lib val = Inl e \<longrightarrow>
      snd (getCurrencyItemCache_xml lib env name t False st) = st \<and>
      (store_ready st \<longrightarrow> fst (getCurrencyItemCache_xml lib env name t False st) = Err e))"
proof (intro conjI impI)
  assume a: "cached st (cacheKey t name) = Some val \<and> json_Unmarshal_item lib val = Inl e"
  show "snd (getCurrencyItemCache lib env name t False st) = st"
  proof (cases "store_ready st")
    case True
    with a show ?thesis by (simp add: lookup_ready)
  next
    case False
    from lookup_not_ready(1) [OF False] obtain e' where
      "getCurrencyItemCache lib env name t False st = (Err e', st)" by blast
    then show ?thesis by simp
  qed
  assume "store_ready st"
  with a show "fst (getCurrencyItemCache lib env name t False st) = Err e"
    by (simp add: lookup_ready)
next
  assume a: "cached st (cacheKey t name) = Some val \<and> json_Unmarshal_row lib val = Inl e"
  show "snd (getCurrencyItemCache_xml lib env name t False st) = st"
  proof (cases "store_ready st")
    case True
    with a show ?thesis by (simp add: lookup_xml_ready)
  next
    case False
    from lookup_not_ready(2) [OF False] obtain e' where
      "getCurrencyItemCache_xml lib env name t False st = (Err e', st)" by blast
    then show ?thesis by simp
  qed
  assume "store_ready st"
  with a show "fst (getCurrencyItemCache_xml lib env name t False st) = Err e"
    by (simp add: lookup_xml_ready)
qed

text \<open>The entry of the dollar was cut off; the provider is up, and is not asked.\<close>

theorem decode_failure_is_returned_witness:
  "cached (opened_state disk_truncated) (cacheKey t_10_01_2024 ''usd'') = Some [] \<and>
   json_Unmarshal_item lib0 [] = Inl (LibError ''cannot unmarshal'') \<and>
   json_Unmarshal_row lib0 [] = Inl (LibError ''unexpected end of JSON input'') \<and>
   store_ready (opened_state disk_truncated) \<and>
   getCurrencyItemCache lib0 (env_ok body_json_1) ''usd'' t_10_01_2024 False (opened_state disk_truncated)
     = (Err (LibError ''cannot unmarshal''), opened_state disk_truncated) \<and>
   getCurrencyItemCache_xml lib0 (env_ok body_xml_1) ''usd'' t_10_01_2024 False (opened_state disk_truncated)
     = (Err (LibError ''unexpected end of JSON input''), opened_state disk_truncated)"
  using decode_failure_is_returned
    [of "opened_state disk_truncated" t_10_01_2024 "''usd''" "[]" lib0 "LibError ''cannot unmarshal''"
        "env_ok body_json_1"]
    decode_failure_is_returned
    [of "opened_state disk_truncated" t_10_01_2024 "''usd''" "[]" lib0
        "LibError ''unexpected end of JSON input''" "env_ok body_xml_1"]
  by (simp add: cached_truncated Unmarshal_truncated opened_state_ready prod_eq_iff)

subsection \<open>C4: the cache key\<close>

text \<open>
  Claim C4, as amended. For a date of a \<open>time.Time\<close> the cache key is the date, a hyphen
  and the currency identifier as it was passed, with no change of case (so it ends in
  the lower-case identifier exactly when a lower-case identifier is passed). For years
  from 0 to 9999 the date is \<open>DD.MM.YYYY\<close>: ten characters, dots at the third and the
  sixth, the digits of day, month and year between them. Two keys are equal if and only
  if the dates and the identifiers are.
\<close>

theorem cacheKey_format_injective:
  "valid_date t \<and> valid_date t' \<longrightarrow>
     cacheKey t name = Format t outputDateFormat @ ''-'' @ name \<and>
     (0 \<le> year t \<and> year t \<le> 9999 \<longrightarrow>
        length (Format t outputDateFormat) = 10 \<and>
        Format t outputDateFormat ! 2 = CHR ''.'' \<and>
        Format t outputDateFormat ! 5 = CHR ''.'' \<and>
        decimal_val (take 2 (Format t outputDateFormat)) = day t \<and>
        decimal_val (take 2 (drop 3 (Format t outputDateFormat))) = month t \<and>
        decimal_val (drop 6 (Format t outputDateFormat)) = nat (year t)) \<and>
     (ToLower name = name \<longrightarrow>
        cacheKey t name = Format t outputDateFormat @ ''-'' @ ToLower name) \<and>
     (cacheKey t name = cacheKey t' name' \<longleftrightarrow> same_date t t' \<and> name = name')"
proof (intro impI conjI)
  assume v: "valid_date t \<and> valid_date t'"
  show "cacheKey t name = Format t outputDateFormat @ ''-'' @ name"
    by (simp add: cacheKey_def)
  show "length (Format t outputDateFormat) = 10"
    and "Format t outputDateFormat ! 2 = CHR ''.''"
    and "Format t outputDateFormat ! 5 = CHR ''.''"
    and "decimal_val (take 2 (Format t outputDateFormat)) = day t"
    and "decimal_val (take 2 (drop 3 (Format t outputDateFormat))) = month t"
    and "decimal_val (drop 6 (Format t outputDateFormat)) = nat (year t)"
    if "0 \<le> year t \<and> year t \<le> 9999"
    using Format_output_shape [of t] v that by simp_all
  show "cacheKey t name = Format t outputDateFormat @ ''-'' @ ToLower name"
    if "ToLower name = name"
    using that by (simp add: cacheKey_def)
  show "cacheKey t name = cacheKey t' name' \<longleftrightarrow> same_date t t' \<and> name = name'"
  proof
    assume "cacheKey t name = cacheKey t' name'"
    with v show "same_date t t' \<and> name = name'"
      using cacheKey_inj [of t t' name name'] by blast
  next
    assume a: "same_date t t' \<and> name = name'"
    then have "cacheKey t' name = cacheKey t name"
      using same_date_cacheKey [of t t' name] by simp
    with a show "cacheKey t name = cacheKey t' name'"
      by simp
  qed
qed

text \<open>Midnight and noon of the 10th of January 2024 give the dollar one key.\<close>

theorem cacheKey_format_injective_witness:
  "valid_date t_10_01_2024 \<and> valid_date t_10_01_2024_noon \<and>
   0 \<le> year t_10_01_2024 \<and> year t_10_01_2024 \<le> 9999 \<and> ToLower ''usd'' = ''usd'' \<and>
   cacheKey t_10_01_2024 ''usd'' = ''10.01.2024-usd'' \<and>
   length (Format t_10_01_2024 outputDateFormat) = 10 \<and>
   decimal_val (drop 6 (Format t_10_01_2024 outputDateFormat)) = 2024 \<and>
   cacheKey t_10_01_2024 ''usd'' = cacheKey t_10_01_2024_noon ''usd'' \<and>
   same_date t_10_01_2024 t_10_01_2024_noon"
proof -
  have y: "year t_10_01_2024 = 2024" by (simp add: t_10_01_2024_def)
  from cacheKey_format_injective
    [where t = t_10_01_2024 and t' = t_10_01_2024_noon and name = "''usd''" and name' = "''usd''"]
  show ?thesis
    by (simp add: valid_date_10_01_2024 y ToLower_usd cacheKey_def same_date_noon Format_10_01_2024)
qed

text \<open>
  The claim as stated fails: the key of \<open>USD\<close> ends in \<open>USD\<close>, not in its lower-case
  form.
\<close>

theorem cacheKey_not_lowercased:
  "cacheKey t_10_01_2024 ''USD'' = ''10.01.2024-USD'' \<and>
   cacheKey t_10_01_2024 ''USD'' \<noteq> Format t_10_01_2024 outputDateFormat @ ''-'' @ ToLower ''USD''"
  by (simp add: cacheKey_def ToLower_USD Format_10_01_2024)

subsection \<open>C5: a bypass fetches and overwrites\<close>

text \<open>
  Claim C5. With the store ready (open and writable, as \<open>main\<close> leaves it), a lookup
  with the bypass calls the provider exactly once, whatever the cache holds. When the
  lookup succeeds, its result is the provider's, and the buckets afterwards are the
  buckets before with the entry of the key in \<open>"cache"\<close> set to the serialised result:
  the entry is replaced, every other entry is as before.
\<close>

theorem bypass_forces_refresh:
  "store_ready st \<longrightarrow>
     (provider_calls (snd (getCurrencyItemCache lib env name t True st)) = Suc (provider_calls st) \<and>
      (\<forall>r st'. getCurrencyItemCache lib env name t True st = (Ok r, st') \<longrightarrow>
         fst (getCurrencyItem lib env name t st) = Ok r \<and>
         (\<exists>val. json_Marshal_item lib r = Inr val \<and>
            buckets (cacheStorage st') =
              (buckets (cacheStorage st))(''cache'' \<mapsto> (cache_bucket st)(cacheKey t name \<mapsto> val))))) \<and>
     (provider_calls (snd (getCurrencyItemCache_xml lib env name t True st)) = Suc (provider_calls st) \<and>
      (\<forall>r st'. getCurrencyItemCache_xml lib env name t True st = (Ok r, st') \<longrightarrow>
         fst (getCurrencyRate lib env name t st) = Ok r \<and>
         (\<exists>val. json_Marshal_row lib r = Inr val \<and>
            buckets (cacheStorage st') =
              (buckets (cacheStorage st))(''cache'' \<mapsto> (cache_bucket st)(cacheKey t name \<mapsto> val)))))"
proof
  assume ready: "store_ready st"
  have "provider_calls (snd (getCurrencyItemCache lib env name t True st)) = Suc (provider_calls st)"
    by (simp add: lookup_ready [OF ready] skipCache_block_calls)
  moreover
  have "provider_calls (snd (getCurrencyItemCache_xml lib env name t True st)) = Suc (provider_calls st)"
    by (simp add: lookup_xml_ready [OF ready] skipCache_block_xml_calls)
  ultimately
  show "(provider_calls (snd (getCurrencyItemCache lib env name t True st)) = Suc (provider_calls st) \<and>
      (\<forall>r st'. getCurrencyItemCache lib env name t True st = (Ok r, st') \<longrightarrow>
         fst (getCurrencyItem lib env name t st) = Ok r \<and>
         (\<exists>val. json_Marshal_item lib r = Inr val \<and>
            buckets (cacheStorage st') =
              (buckets (cacheStorage st))(''cache'' \<mapsto> (cache_bucket st)(cacheKey t name \<mapsto> val))))) \<and>
     (provider_calls (snd (getCurrencyItemCache_xml lib env name t True st)) = Suc (provider_calls st) \<and>
      (\<forall>r st'. getCurrencyItemCache_xml lib env name t True st = (Ok r, st') \<longrightarrow>
         fst (getCurrencyRate lib env name t st) = Ok r \<and>
         (\<exists>val. json_Marshal_row lib r = Inr val \<and>
            buckets (cacheStorage st') =
              (buckets (cacheStorage st))(''cache'' \<mapsto> (cache_bucket st)(cacheKey t name \<mapsto> val)))))"
    using bypass_stores [OF ready, of lib env name t] bypass_xml_stores [OF ready, of lib env name t]
    by blast
qed

text \<open>
  The cache holds 91.00 for the dollar and the provider now says 92.50: after the
  bypass the cache holds 92.50 under the same key, and nothing else.
\<close>

theorem bypass_forces_refresh_witness:
  "store_ready (opened_state disk_json_1) \<and> store_ready (opened_state disk_xml_1) \<and>
   cached (opened_state disk_json_1) (cacheKey t_10_01_2024 ''usd'') = Some ''usd|100|2024-01-10T00:00:00|9100|50'' \<and>
   getCurrencyItemCache lib0 (env_ok body_json_2) ''usd'' t_10_01_2024 True (opened_state disk_json_1) =
     (Ok item_usd_2, state_of disk_json_2 Map.empty [request_usd] (Suc 0)) \<and>
   fst (getCurrencyItem lib0 (env_ok body_json_2) ''usd'' t_10_01_2024 (opened_state disk_json_1)) = Ok item_usd_2 \<and>
   (\<exists>val. json_Marshal_item lib0 item_usd_2 = Inr val \<and>
      disk_json_2 = disk_json_1(''cache'' \<mapsto> (cache_bucket (opened_state disk_json_1))(cacheKey t_10_01_2024 ''usd'' \<mapsto> val))) \<and>
   cached (opened_state disk_xml_1) (cacheKey t_10_01_2024 ''usd'') = Some ''10.01.2024|USD|91.00'' \<and>
   getCurrencyItemCache_xml lib0 (env_ok body_xml_2) ''usd'' t_10_01_2024 True (opened_state disk_xml_1) =
     (Ok [''10.01.2024'', ''USD'', ''92.50''], state_of disk_xml_2 rates_2 [request_bulletin] (Suc 0)) \<and>
   fst (getCurrencyRate lib0 (env_ok body_xml_2) ''usd'' t_10_01_2024 (opened_state disk_xml_1)) =
     Ok [''10.01.2024'', ''USD'', ''92.50''] \<and>
   (\<exists>val. json_Marshal_row lib0 [''10.01.2024'', ''USD'', ''92.50''] = Inr val \<and>
      disk_xml_2 = disk_xml_1(''cache'' \<mapsto> (cache_bucket (opened_state disk_xml_1))(cacheKey t_10_01_2024 ''usd'' \<mapsto> val)))"
proof -
  have c1: "cached (opened_state disk_json_1) (cacheKey t_10_01_2024 ''usd'') = Some ''usd|100|2024-01-10T00:00:00|9100|50''"
    and c2: "cached (opened_state disk_xml_1) (cacheKey t_10_01_2024 ''usd'') = Some ''10.01.2024|USD|91.00''"
    by (simp_all add: cached_def eval_defs)
  have b1: "buckets (cacheStorage (state_of d rates reqs n)) = d"
    and b3: "buckets (cacheStorage (opened_state d)) = d" for d rates reqs n
    by (simp_all add: state_of_def opened_state_def init_state_def)
  from bypass_forces_refresh
    [of "opened_state disk_json_1" lib0 "env_ok body_json_2" "''usd''" t_10_01_2024]
    bypass_forces_refresh
    [of "opened_state disk_xml_1" lib0 "env_ok body_xml_2" "''usd''" t_10_01_2024]
  show ?thesis
    by (simp add: opened_state_ready run_json_bypass run_xml_bypass c1 c2 b1 b3)
qed

subsection \<open>C6: two lookups, one fetch\<close>

text \<open>
  Claim C6. Let a lookup without bypass succeed, and let the codec read back what it
  writes for the result. Then a second lookup without bypass for the same date and
  currency, in any world, returns the same result and leaves the state as it is: the
  provider is not called, no request is sent, nothing is written.
\<close>

theorem cache_hit_idempotent:
  "(getCurrencyItemCache lib env1 name t False st = (Ok r, st1) \<and> same_date t t2 \<and>
    (\<forall>val. json_Marshal_item lib r = Inr val \<longrightarrow> json_Unmarshal_item lib val = Inr r) \<longrightarrow>
      getCurrencyItemCache lib env2 name t2 False st1 = (Ok r, st1)) \<and>
   (getCurrencyItemCache_xml lib env1 name t False st = (Ok row, st1) \<and> same_date t t2 \<and>
    (\<forall>val. json_Marshal_row lib row = Inr val \<longrightarrow> json_Unmarshal_row lib val = Inr row) \<longrightarrow>
      getCurrencyItemCache_xml lib env2 name t2 False st1 = (Ok row, st1))"
  using second_lookup_hits [of lib env1 name t st r st1 t2 env2]
    second_lookup_xml_hits [of lib env1 name t st row st1 t2 env2]
  by blast

text \<open>
  The first lookup fetches the dollar at midnight; the second, at noon with the
  provider down, returns the same from the cache.
\<close>

theorem cache_hit_idempotent_witness:
  "getCurrencyItemCache lib0 (env_ok body_json_1) ''usd'' t_10_01_2024 False (opened_state Map.empty) =
     (Ok item_usd_1, state_of disk_json_1 Map.empty [request_usd] (Suc 0)) \<and>
   getCurrencyItemCache_xml lib0 (env_ok body_xml_1) ''usd'' t_10_01_2024 False (opened_state Map.empty) =
     (Ok [''10.01.2024'', ''USD'', ''91.00''], state_of disk_xml_1 rates_1 [request_bulletin] (Suc 0)) \<and>
   same_date t_10_01_2024 t_10_01_2024_noon \<and>
   json_Marshal_item lib0 item_usd_1 = Inr ''usd|100|2024-01-10T00:00:00|9100|50'' \<and>
   json_Unmarshal_item lib0 ''usd|100|2024-01-10T00:00:00|9100|50'' = Inr item_usd_1 \<and>
   json_Marshal_row lib0 [''10.01.2024'', ''USD'', ''91.00''] = Inr ''10.01.2024|USD|91.00'' \<and>
   json_Unmarshal_row lib0 ''10.01.2024|USD|91.00'' = Inr [''10.01.2024'', ''USD'', ''91.00''] \<and>
   getCurrencyItemCache lib0 env_down ''usd'' t_10_01_2024_noon False
       (state_of disk_json_1 Map.empty [request_usd] (Suc 0)) =
     (Ok item_usd_1, state_of disk_json_1 Map.empty [request_usd] (Suc 0)) \<and>
   getCurrencyItemCache_xml lib0 env_down ''usd'' t_10_01_2024_noon False
       (state_of disk_xml_1 rates_1 [request_bulletin] (Suc 0)) =
     (Ok [''10.01.2024'', ''USD'', ''91.00''], state_of disk_xml_1 rates_1 [request_bulletin] (Suc 0))"
  using cache_hit_idempotent
    [where lib = lib0 and ?env1.0 = "env_ok body_json_1" and name = "''usd''" and t = t_10_01_2024
       and st = "opened_state Map.empty" and r = item_usd_1
       and ?st1.0 = "state_of disk_json_1 Map.empty [request_usd] (Suc 0)"
       and ?t2.0 = t_10_01_2024_noon and ?env2.0 = env_down]
    cache_hit_idempotent
    [where lib = lib0 and ?env1.0 = "env_ok body_xml_1" and name = "''usd''" and t = t_10_01_2024
       and st = "opened_state Map.empty" and row = "[''10.01.2024'', ''USD'', ''91.00'']"
       and ?st1.0 = "state_of disk_xml_1 rates_1 [request_bulletin] (Suc 0)"
       and ?t2.0 = t_10_01_2024_noon and ?env2.0 = env_down]
  by (simp add: run_json_miss run_xml_miss cached_empty same_date_noon Marshal_item_usd_1
        Unmarshal_item_usd_1 Marshal_row_usd_1 Unmarshal_row_usd_1)

subsection \<open>C7: the case of the currency identifier\<close>




subsection \<open>C8: a failed lookup ends the run\<close>

text \<open>
  Claim C8. In both cached variants: when the lookups for the first currencies of the
  list succeed and the next one fails (an error or a panic), the program exits with a
  status that is not 0, prints no row, and the state at the exit shows the work done up
  to the failed lookup and no more: the currencies after it are not looked up.
\<close>

theorem batch_fails_fast:
  "(MkdirAll_fault ps = None \<and> bolt_Open ps = Inr disk \<and>
    currenciesList fl = pre @ c # post \<and>
    main_loop lib ps (skipCache_flag fl) 0 pre [] (opened_state disk) = (Ok rows1, st1) \<and>
    getCurrencyItemCache lib (lookup_env ps (length pre)) c (Now (lookup_env ps (length pre)))
      (skipCache_flag fl) st1 = (res, st2) \<and>
    (\<forall>r. res \<noteq> Ok r) \<longrightarrow>
      exit_status (main lib ps fl) \<noteq> 0 \<and> stdout (main lib ps fl) = [] \<and>
      same_work st2 (final (main lib ps fl))) \<and>
   (MkdirAll_fault ps = None \<and> bolt_Open ps = Inr disk \<and>
    Split (currency_flag_x flx) (CHR '','') = pre @ c # post \<and>
    date = time_AddDays lib (start_time ps) (- daysBefore_flag flx) \<and>
    main_loop_xml lib ps (skipCache_flag_x flx) date 0 pre [] (opened_state disk) = (Ok rows1x, st1x) \<and>
    getCurrencyItemCache_xml lib (lookup_env ps (length pre)) c date (skipCache_flag_x flx) st1x
      = (resx, st2x) \<and>
    (\<forall>r. resx \<noteq> Ok r) \<longrightarrow>
      exit_status (main_xml lib ps flx) \<noteq> 0 \<and> stdout (main_xml lib ps flx) = [] \<and>
      same_work st2x (final (main_xml lib ps flx)))"
proof (intro conjI impI)
  assume a: "MkdirAll_fault ps = None \<and> bolt_Open ps = Inr disk \<and>
    currenciesList fl = pre @ c # post \<and>
    main_loop lib ps (skipCache_flag fl) 0 pre [] (opened_state disk) = (Ok rows1, st1) \<and>
    getCurrencyItemCache lib (lookup_env ps (length pre)) c (Now (lookup_env ps (length pre)))
      (skipCache_flag fl) st1 = (res, st2) \<and>
    (\<forall>r. res \<noteq> Ok r)"
  then obtain res' where r: "\<forall>rows. res' \<noteq> Ok rows"
    and l: "main_loop lib ps (skipCache_flag fl) 0 (pre @ c # post) [] (opened_state disk) = (res', st2)"
    using main_loop_stops [of lib ps "skipCache_flag fl" 0 pre "[]" "opened_state disk" rows1 st1 c res st2 post]
    by auto
  from a l have m: "main lib ps fl = finish ps (res', st2)"
    by (simp add: main_def)
  show "exit_status (main lib ps fl) \<noteq> 0" "stdout (main lib ps fl) = []"
    "same_work st2 (final (main lib ps fl))"
    using finish_failure [OF r, of ps st2] by (simp_all add: m)
next
  assume a: "MkdirAll_fault ps = None \<and> bolt_Open ps = Inr disk \<and>
    Split (currency_flag_x flx) (CHR '','') = pre @ c # post \<and>
    date = time_AddDays lib (start_time ps) (- daysBefore_flag flx) \<and>
    main_loop_xml lib ps (skipCache_flag_x flx) date 0 pre [] (opened_state disk) = (Ok rows1x, st1x) \<and>
    getCurrencyItemCache_xml lib (lookup_env ps (length pre)) c date (skipCache_flag_x flx) st1x
      = (resx, st2x) \<and>
    (\<forall>r. resx \<noteq> Ok r)"
  then obtain res' where r: "\<forall>rows. res' \<noteq> Ok rows"
    and l: "main_loop_xml lib ps (skipCache_flag_x flx) date 0 (pre @ c # post) [] (opened_state disk) = (res', st2x)"
    using main_loop_xml_stops [of lib ps "skipCache_flag_x flx" date 0 pre "[]" "opened_state disk" rows1x st1x c resx st2x post]
    by auto
  from a l have m: "main_xml lib ps flx = finish ps (res', st2x)"
    by (simp add: main_xml_def Let_def)
  show "exit_status (main_xml lib ps flx) \<noteq> 0" "stdout (main_xml lib ps flx) = []"
    "same_work st2x (final (main_xml lib ps flx))"
    using finish_failure [OF r, of ps st2x] by (simp_all add: m)
qed

text \<open>
  The dollar, an unknown currency, a third currency: the run exits after the second,
  with one request sent and two provider calls made, and prints nothing.
\<close>

theorem batch_fails_fast_witness:
  "currenciesList flags_batch = [''usd''] @ ''xyz'' # [''eur''] \<and>
   main_loop lib0 (process0 Map.empty (env_ok body_json_1)) False 0 [''usd''] [] (opened_state Map.empty) =
     (Ok [[''10.01.2024'', ''USD'', ''91.00'', ''0.50'']], state_of disk_json_1 Map.empty [request_usd] (Suc 0)) \<and>
   getCurrencyItemCache lib0 (env_ok body_json_1) ''xyz'' t_10_01_2024 False
      (state_of disk_json_1 Map.empty [request_usd] (Suc 0)) =
     (Err (InvalidCurrencyName ''xyz''), state_of disk_json_1 Map.empty [request_usd] 2) \<and>
   exit_status (main lib0 (process0 Map.empty (env_ok body_json_1)) flags_batch) \<noteq> 0 \<and>
   stdout (main lib0 (process0 Map.empty (env_ok body_json_1)) flags_batch) = [] \<and>
   same_work (state_of disk_json_1 Map.empty [request_usd] 2)
     (final (main lib0 (process0 Map.empty (env_ok body_json_1)) flags_batch)) \<and>
   Split (currency_flag_x flags_batch_xml) (CHR '','') = [''usd''] @ ''xyz'' # [''uah''] \<and>
   main_loop_xml lib0 (process0 Map.empty (env_ok body_xml_1)) False t_10_01_2024 0 [''usd''] []
       (opened_state Map.empty) =
     (Ok [[''10.01.2024'', ''USD'', ''91.00'']], state_of disk_xml_1 rates_1 [request_bulletin] (Suc 0)) \<and>
   getCurrencyItemCache_xml lib0 (env_ok body_xml_1) ''xyz'' t_10_01_2024 False
      (state_of disk_xml_1 rates_1 [request_bulletin] (Suc 0)) =
     (Err (CannotGetCurrencyRate ''xyz''), state_of disk_xml_1 rates_1 [request_bulletin] 2) \<and>
   exit_status (main_xml lib0 (process0 Map.empty (env_ok body_xml_1)) flags_batch_xml) \<noteq> 0 \<and>
   stdout (main_xml lib0 (process0 Map.empty (env_ok body_xml_1)) flags_batch_xml) = [] \<and>
   same_work (state_of disk_xml_1 rates_1 [request_bulletin] 2)
     (final (main_xml lib0 (process0 Map.empty (env_ok body_xml_1)) flags_batch_xml))"
proof -
  have f: "skipCache_flag flags_batch = False" "skipCache_flag_x flags_batch_xml = False"
    "daysBefore_flag flags_batch_xml = 0"
    by (simp_all add: flags_batch_def flags_batch_xml_def)
  from batch_fails_fast
    [where ps = "process0 Map.empty (env_ok body_json_1)" and disk = Map.empty and fl = flags_batch
       and pre = "[''usd'']" and c = "''xyz''" and post = "[''eur'']" and lib = lib0
       and ?rows1.0 = "[[''10.01.2024'', ''USD'', ''91.00'', ''0.50'']]"
       and ?st1.0 = "state_of disk_json_1 Map.empty [request_usd] (Suc 0)"
       and res = "Err (InvalidCurrencyName ''xyz'')"
       and ?st2.0 = "state_of disk_json_1 Map.empty [request_usd] 2"]
  have j: "exit_status (main lib0 (process0 Map.empty (env_ok body_json_1)) flags_batch) \<noteq> 0 \<and>
     stdout (main lib0 (process0 Map.empty (env_ok body_json_1)) flags_batch) = [] \<and>
     same_work (state_of disk_json_1 Map.empty [request_usd] 2)
       (final (main lib0 (process0 Map.empty (env_ok body_json_1)) flags_batch))"
    by (simp add: process0_fields currenciesList_batch f main_loop_usd Now_env_ok run_json_unknown
          del: main_loop.simps)
  from batch_fails_fast
    [where ps = "process0 Map.empty (env_ok body_xml_1)" and disk = Map.empty and flx = flags_batch_xml
       and pre = "[''usd'']" and c = "''xyz''" and post = "[''uah'']" and lib = lib0
       and date = t_10_01_2024
       and ?rows1x.0 = "[[''10.01.2024'', ''USD'', ''91.00'']]"
       and ?st1x.0 = "state_of disk_xml_1 rates_1 [request_bulletin] (Suc 0)"
       and resx = "Err (CannotGetCurrencyRate ''xyz'')"
       and ?st2x.0 = "state_of disk_xml_1 rates_1 [request_bulletin] 2"]
  have x: "exit_status (main_xml lib0 (process0 Map.empty (env_ok body_xml_1)) flags_batch_xml) \<noteq> 0 \<and>
     stdout (main_xml lib0 (process0 Map.empty (env_ok body_xml_1)) flags_batch_xml) = [] \<and>
     same_work (state_of disk_xml_1 rates_1 [request_bulletin] 2)
       (final (main_xml lib0 (process0 Map.empty (env_ok body_xml_1)) flags_batch_xml))"
    by (simp add: process0_fields Split_batch_xml f main_loop_xml_usd run_xml_unknown date_today
          del: main_loop_xml.simps)
  from j x show ?thesis
    by (simp add: currenciesList_batch Split_batch_xml main_loop_usd main_loop_xml_usd
          run_json_unknown run_xml_unknown del: main_loop.simps main_loop_xml.simps)
qed

subsection \<open>C9: one request for the bulletin\<close>

text \<open>
  Claim C9. A run of the XML variant sends at most one HTTP request, whatever the
  command line, the cache file and the world. While \<open>currenciesRate\<close> is empty,
  \<open>getCurrencyRates\<close> sends the request for the bulletin and records it; when it
  succeeds, the provider has answered that request with status 200 and a body that
  decodes, and \<open>currenciesRate\<close> afterwards is the map it returns, made of the rows of
  the bulletin's currencies: its keys are their lower-case codes, each row is the row
  of a currency with that code. Once \<open>currenciesRate\<close> holds rows, \<open>getCurrencyRates\<close>
  returns them and sends nothing. In a run, after lookups that succeeded and sent a
  request, \<open>currenciesRate\<close> holds rows, and \<open>getCurrencyRate\<close> answers from it in any
  world: the row under the lower-case name, or the error that there is none.
\<close>

theorem bulletin_fetched_once:
  "length (requests (final (main_xml lib ps fl))) \<le> 1 \<and>
   (currenciesRate st = Map.empty \<and>
    NewRequest lib ''GET'' (urlTemplate_xml (Format t xmlDateFormat)) = Inr req0 \<longrightarrow>
      requests (snd (getCurrencyRates lib env t st)) =
        requests st @ [Header_Set req0 ''User-Agent'' userAgent]) \<and>
   (currenciesRate st = Map.empty \<and> getCurrencyRates lib env t st = (Ok m, st1) \<longrightarrow>
      (\<exists>req0 res body v.
         NewRequest lib ''GET'' (urlTemplate_xml (Format t xmlDateFormat)) = Inr req0 \<and>
         http_Do env (Header_Set req0 ''User-Agent'' userAgent) = Inr res \<and>
         StatusCode res = 200 \<and> ReadAll (Body res) = Inr body \<and>
         xml_Decode lib CharsetReader body = Inr v \<and>
         Valutes_loop lib t (Valutes v) Map.empty = (None, m) \<and>
         st1 = st\<lparr>requests := requests st @ [Header_Set req0 ''User-Agent'' userAgent],
                  currenciesRate := m\<rparr>)) \<and>
   (Valutes_loop lib t vs Map.empty = (None, m') \<longrightarrow>
      dom m' = (\<lambda>v. ToLower (CharCode v)) ` set vs \<and>
      (\<forall>k row. m' k = Some row \<longrightarrow>
         (\<exists>v\<in>set vs. ToLower (CharCode v) = k \<and>
            Valute_getRow lib (v\<lparr>Date_v := t\<rparr>) = Inr row))) \<and>
   (currenciesRate st \<noteq> Map.empty \<longrightarrow>
      getCurrencyRates lib env t st = (Ok (currenciesRate st), st)) \<and>
   (main_loop_xml lib ps skip date 0 pre [] (opened_state disk) = (Ok rows1, st2) \<and>
    requests st2 \<noteq> [] \<longrightarrow>
      currenciesRate st2 \<noteq> Map.empty \<and>
      getCurrencyRate lib env name date st2 =
        (case currenciesRate st2 (ToLower name) of
           Some row \<Rightarrow> Ok row
         | None \<Rightarrow> Err (CannotGetCurrencyRate name),
         st2\<lparr>provider_calls := Suc (provider_calls st2)\<rparr>))"
proof (intro conjI)
  have "length (requests (final (finish ps
          (main_loop_xml lib ps skip date 0 cs [] (opened_state disk))))) \<le> 1" for skip date cs disk
    using main_loop_xml_requests [OF fetched_once_opened, of lib ps skip date 0 cs "[]" disk]
    by (simp add: final_finish)
  then show "length (requests (final (main_xml lib ps fl))) \<le> 1"
    by (simp add: main_xml_def Let_def init_state_def opened_state_def split: option.splits sum.splits)
  show "currenciesRate st = Map.empty \<and>
    NewRequest lib ''GET'' (urlTemplate_xml (Format t xmlDateFormat)) = Inr req0 \<longrightarrow>
      requests (snd (getCurrencyRates lib env t st)) =
        requests st @ [Header_Set req0 ''User-Agent'' userAgent]"
    using getCurrencyRates_request [of st lib t req0 env] by blast
  show "currenciesRate st = Map.empty \<and> getCurrencyRates lib env t st = (Ok m, st1) \<longrightarrow>
      (\<exists>req0 res body v.
         NewRequest lib ''GET'' (urlTemplate_xml (Format t xmlDateFormat)) = Inr req0 \<and>
         http_Do env (Header_Set req0 ''User-Agent'' userAgent) = Inr res \<and>
         StatusCode res = 200 \<and> ReadAll (Body res) = Inr body \<and>
         xml_Decode lib CharsetReader body = Inr v \<and>
         Valutes_loop lib t (Valutes v) Map.empty = (None, m) \<and>
         st1 = st\<lparr>requests := requests st @ [Header_Set req0 ''User-Agent'' userAgent],
                  currenciesRate := m\<rparr>)"
    using getCurrencyRates_fetch_Ok [of st lib env t m st1] by blast
  show "Valutes_loop lib t vs Map.empty = (None, m') \<longrightarrow>
      dom m' = (\<lambda>v. ToLower (CharCode v)) ` set vs \<and>
      (\<forall>k row. m' k = Some row \<longrightarrow>
         (\<exists>v\<in>set vs. ToLower (CharCode v) = k \<and>
            Valute_getRow lib (v\<lparr>Date_v := t\<rparr>) = Inr row))"
    using bulletin_rows [of lib t vs m'] by blast
  show "currenciesRate st \<noteq> Map.empty \<longrightarrow>
      getCurrencyRates lib env t st = (Ok (currenciesRate st), st)"
    by (simp add: getCurrencyRates_memo)
  show "main_loop_xml lib ps skip date 0 pre [] (opened_state disk) = (Ok rows1, st2) \<and>
    requests st2 \<noteq> [] \<longrightarrow>
      currenciesRate st2 \<noteq> Map.empty \<and>
      getCurrencyRate lib env name date st2 =
        (case currenciesRate st2 (ToLower name) of
           Some row \<Rightarrow> Ok row
         | None \<Rightarrow> Err (CannotGetCurrencyRate name),
         st2\<lparr>provider_calls := Suc (provider_calls st2)\<rparr>)"
    using served_from_memo [of lib ps skip date pre disk rows1 st2 env name] by blast
qed

text \<open>
  Two currencies, an empty cache, a provider that answers during the first lookup only:
  the run sends the one request for the bulletin and prints two rows, the second from
  the rows in memory.
\<close>

theorem bulletin_fetched_once_witness:
  "requests (final (main_xml lib0 process_first_up flags_two_xml)) = [request_bulletin] \<and>
   length (requests (final (main_xml lib0 process_first_up flags_two_xml))) \<le> 1 \<and>
   exit_status (main_xml lib0 process_first_up flags_two_xml) = 0 \<and>
   stdout (main_xml lib0 process_first_up flags_two_xml) =
     [[''10.01.2024'', ''USD'', ''91.00''], [''10.01.2024'', ''UAH'', ''91.25'']] \<and>
   currenciesRate (opened_state Map.empty) = Map.empty \<and>
   NewRequest lib0 ''GET'' (urlTemplate_xml (Format t_10_01_2024 xmlDateFormat)) =
     Inr \<lparr>Method = ''GET'', URL = ''https://www.cbr.ru/scripts/XML_daily.asp?date_req=10/01/2024'',
          Header = []\<rparr> \<and>
   Header_Set \<lparr>Method = ''GET'', URL = ''https://www.cbr.ru/scripts/XML_daily.asp?date_req=10/01/2024'',
               Header = []\<rparr> ''User-Agent'' userAgent = request_bulletin \<and>
   getCurrencyRates lib0 (env_ok body_xml_1) t_10_01_2024 (opened_state Map.empty) =
     (Ok rates_1, state_of Map.empty rates_1 [request_bulletin] 0) \<and>
   requests (snd (getCurrencyRates lib0 (env_ok body_xml_1) t_10_01_2024 (opened_state Map.empty))) =
     [request_bulletin] \<and>
   currenciesRate (snd (getCurrencyRates lib0 (env_ok body_xml_1) t_10_01_2024 (opened_state Map.empty))) =
     rates_1 \<and>
   xml_Decode lib0 CharsetReader body_xml_1 =
     Inr \<lparr>Date_vc = [], Name_vc = [], Valutes = [valute_uah, valute_usd]\<rparr> \<and>
   Valutes_loop lib0 t_10_01_2024 [valute_uah, valute_usd] Map.empty = (None, rates_1) \<and>
   dom rates_1 = {''uah'', ''usd''} \<and>
   rates_1 ''uah'' = Some [''10.01.2024'', ''UAH'', ''91.25''] \<and>
   Valute_getRow lib0 (valute_uah\<lparr>Date_v := t_10_01_2024\<rparr>) = Inr [''10.01.2024'', ''UAH'', ''91.25''] \<and>
   rates_1 ''usd'' = Some [''10.01.2024'', ''USD'', ''91.00''] \<and>
   Valute_getRow lib0 (valute_usd\<lparr>Date_v := t_10_01_2024\<rparr>) = Inr [''10.01.2024'', ''USD'', ''91.00''] \<and>
   currenciesRate (state_of disk_xml_1 rates_1 [request_bulletin] (Suc 0)) \<noteq> Map.empty \<and>
   getCurrencyRates lib0 env_down t_10_01_2024 (state_of disk_xml_1 rates_1 [request_bulletin] (Suc 0)) =
     (Ok rates_1, state_of disk_xml_1 rates_1 [request_bulletin] (Suc 0)) \<and>
   main_loop_xml lib0 process_first_up False t_10_01_2024 0 [''usd''] [] (opened_state Map.empty) =
     (Ok [[''10.01.2024'', ''USD'', ''91.00'']], state_of disk_xml_1 rates_1 [request_bulletin] (Suc 0)) \<and>
   requests (state_of disk_xml_1 rates_1 [request_bulletin] (Suc 0)) \<noteq> [] \<and>
   getCurrencyRate lib0 env_down ''uah'' t_10_01_2024
      (state_of disk_xml_1 rates_1 [request_bulletin] (Suc 0)) =
     (Ok [''10.01.2024'', ''UAH'', ''91.25''], state_of disk_xml_1 rates_1 [request_bulletin] 2)"
proof -
  let ?s1 = "state_of disk_xml_1 rates_1 [request_bulletin] (Suc 0)"
  note facts = main_xml_first_up state_of_fields bulletin_request bulletin_response bulletin_decoded
    bulletin_rows_1 valute_rows_1 rates_1_rows fetch_bulletin_1 memo_serves_rates memo_serves_uah
    main_loop_xml_first_up rates_1_nonempty
  from bulletin_fetched_once
    [where lib = lib0 and ps = process_first_up and fl = flags_two_xml
       and st = "opened_state Map.empty" and env = "env_ok body_xml_1" and t = t_10_01_2024
       and ?req0.0 = "\<lparr>Method = ''GET'',
             URL = ''https://www.cbr.ru/scripts/XML_daily.asp?date_req=10/01/2024'', Header = []\<rparr>"
       and m = rates_1 and ?st1.0 = "state_of Map.empty rates_1 [request_bulletin] 0"
       and vs = "[valute_uah, valute_usd]" and m' = rates_1]
  have a: "length (requests (final (main_xml lib0 process_first_up flags_two_xml))) \<le> 1 \<and>
     requests (snd (getCurrencyRates lib0 (env_ok body_xml_1) t_10_01_2024 (opened_state Map.empty))) =
       [request_bulletin] \<and>
     dom rates_1 = {''uah'', ''usd''}"
    by (simp add: facts del: Valutes_loop.simps main_loop_xml.simps)
  from bulletin_fetched_once
    [where lib = lib0 and st = ?s1 and env = env_down and t = t_10_01_2024
       and ps = process_first_up and skip = False and date = t_10_01_2024 and pre = "[''usd'']"
       and disk = Map.empty and ?rows1.0 = "[[''10.01.2024'', ''USD'', ''91.00'']]"
       and ?st2.0 = ?s1 and name = "''uah''"]
  have b: "getCurrencyRates lib0 env_down t_10_01_2024 ?s1 = (Ok rates_1, ?s1) \<and>
     getCurrencyRate lib0 env_down ''uah'' t_10_01_2024 ?s1 =
       (Ok [''10.01.2024'', ''UAH'', ''91.25''], state_of disk_xml_1 rates_1 [request_bulletin] 2)"
    by (simp add: facts del: Valutes_loop.simps main_loop_xml.simps)
  from a b show ?thesis
    by (simp add: facts del: Valutes_loop.simps main_loop_xml.simps)
qed

subsection \<open>C10: the empty array\<close>

text \<open>
  Claim C10. In both JSON variants, when the provider answers a known currency with
  status 200 and a body that decodes to the empty array, the fetch takes the element
  at index \<open>-1\<close> and panics; it returns no error.
\<close>

theorem empty_array_panics:
  "(currenciesInfo lib name = Some info \<and>
    NewRequest lib ''GET'' (urlTemplate (code info) (unix t)) = Inr req0 \<and>
    http_Do env (Header_Set req0 ''User-Agent'' userAgent) = Inr res \<and>
    StatusCode res = 200 \<and> Body res = Bytes body \<and> json_Unmarshal_data lib body = Inr [] \<longrightarrow>
      fst (getCurrencyItem lib env name t st) = Panic (IndexOutOfRange (- 1) 0)) \<and>
   (currenciesInfo lib name = Some info \<and>
    NewRequest lib ''GET'' (urlTemplate (code info) (unix (Now env))) = Inr req0 \<and>
    http_Do env req0 = Inr res \<and>
    StatusCode res = 200 \<and> Body res = Bytes body \<and> json_Unmarshal_data lib body = Inr [] \<longrightarrow>
      fst (getCurrencyItem_nocache lib env name st) = Panic (IndexOutOfRange (- 1) 0))"
  by (simp add: getCurrencyItem_def getCurrencyItem_nocache_def http_Get_def Let_def)

text \<open>The body \<open>[]\<close> for the dollar.\<close>

theorem empty_array_panics_witness:
  "currenciesInfo lib0 ''usd'' = Some \<lparr>code = ''R01235'', div_info = 100\<rparr> \<and>
   json_Unmarshal_data lib0 ''[]'' = Inr [] \<and>
   fst (getCurrencyItem lib0 (env_ok ''[]'') ''usd'' t_10_01_2024 (opened_state Map.empty)) =
     Panic (IndexOutOfRange (- 1) 0) \<and>
   fst (getCurrencyItem_nocache lib0 (env_ok ''[]'') ''usd'' (opened_state Map.empty)) =
     Panic (IndexOutOfRange (- 1) 0)"
proof -
  let ?res = "\<lparr>StatusCode = 200, Status = ''200 OK'', Body = Bytes ''[]''\<rparr>"
  have i: "currenciesInfo lib0 ''usd'' = Some \<lparr>code = ''R01235'', div_info = 100\<rparr>"
    by (simp add: currenciesInfo_def lib0_def float64_of_int0_def)
  have n: "NewRequest lib0 ''GET'' u = Inr \<lparr>Method = ''GET'', URL = u, Header = []\<rparr>" for u
    by (simp add: lib0_def NewRequest0_def)
  have d: "http_Do (env_ok ''[]'') req = Inr ?res" for req
    by (simp add: env_ok_def)
  from empty_array_panics
    [where lib = lib0 and name = "''usd''" and info = "\<lparr>code = ''R01235'', div_info = 100\<rparr>"
       and t = t_10_01_2024 and env = "env_ok ''[]''" and res = ?res and body = "''[]''"
       and st = "opened_state Map.empty"
       and ?req0.0 = "\<lparr>Method = ''GET'', URL = urlTemplate ''R01235'' (unix t_10_01_2024), Header = []\<rparr>"]
    empty_array_panics
    [where lib = lib0 and name = "''usd''" and info = "\<lparr>code = ''R01235'', div_info = 100\<rparr>"
       and t = t_10_01_2024 and env = "env_ok ''[]''" and res = ?res and body = "''[]''"
       and st = "opened_state Map.empty"
       and ?req0.0 = "\<lparr>Method = ''GET'', URL = urlTemplate ''R01235'' (unix (Now (env_ok ''[]''))), Header = []\<rparr>"]
  show ?thesis
    by (simp add: i n d Unmarshal_empty_array)
qed

end
